theory Spec2Isabelle
  imports Main
begin

section \<open>JavaScript values\<close>

text \<open>
  The client handles untyped JavaScript data: parsed JSON payloads, query option objects,
  thrown values. They are modelled by one datatype: the values of JSON, and \<^verbatim>\<open>undefined\<close>.

  A number that is an integer is \<open>JNum n\<close>; JavaScript numbers are doubles, so \<open>JNum n\<close>
  stands for the double nearest to \<open>n\<close> (\<open>n\<close> itself up to \<open>2^53\<close>). The model has no floating
  point: a number that is not an integer (a fraction, an infinity, \<^verbatim>\<open>NaN\<close>) is \<open>JNonInt t\<close>,
  given by the text \<open>t\<close> that \<^verbatim>\<open>String\<close> prints for it, which is all the program reads of
  such a number besides its truthiness.

  Strings are byte strings, the UTF-8 encoding of the JavaScript string, so that
  percent-encoding works byte by byte. An object is the list of its own enumerable
  entries in insertion order, with distinct keys; a lookup takes the first entry, and
  \<open>Object_entries\<close> below gives the order in which \<^verbatim>\<open>Object.entries\<close> lists them.
  Symbols, functions and cyclic objects are not values of this type.

  The development follows backend/lib/directus/client.js and products.js. The TypeScript
  files of the frontend (lib/directus/client.ts, products.ts) have the same functions with
  the same bodies; their \<^verbatim>\<open>request\<close> passes two more fields to the transport
  (\<^verbatim>\<open>cache\<close>, \<^verbatim>\<open>fetchOptions\<close>) and they have no \<^verbatim>\<open>graphql\<close>.
\<close>

datatype jsval =
    JUndefined
  | JNull
  | JBool bool
  | JNum int
  | JNonInt string
  | JStr string
  | JArr "jsval list"
  | JObj "(string \<times> jsval) list"

text \<open>A call either returns a value or throws one (a rejected promise, once awaited).\<close>

datatype 'a outcome = Returned 'a | Thrown jsval

text \<open>Truthiness, as \<^verbatim>\<open>Boolean(v)\<close>, \<^verbatim>\<open>!v\<close> and \<^verbatim>\<open>a || b\<close> use it. Among the numbers
  only 0 and \<^verbatim>\<open>NaN\<close> are falsy.\<close>

fun truthy :: "jsval \<Rightarrow> bool" where
  "truthy JUndefined = False"
| "truthy JNull = False"
| "truthy (JBool b) = b"
| "truthy (JNum n) = (n \<noteq> 0)"
| "truthy (JNonInt t) = (t \<noteq> ''NaN'')"
| "truthy (JStr s) = (s \<noteq> [])"
| "truthy (JArr xs) = True"
| "truthy (JObj es) = True"

definition or_js :: "jsval \<Rightarrow> jsval \<Rightarrow> jsval" where
  "or_js a b = (if truthy a then a else b)"

definition nullish :: "jsval \<Rightarrow> bool" where
  "nullish v = (v = JUndefined \<or> v = JNull)"

fun lookup :: "(string \<times> jsval) list \<Rightarrow> string \<Rightarrow> jsval" where
  "lookup [] k = JUndefined"
| "lookup ((k', v) # es) k = (if k' = k then v else lookup es k)"

fun has_key :: "(string \<times> jsval) list \<Rightarrow> string \<Rightarrow> bool" where
  "has_key [] k = False"
| "has_key ((k', v) # es) k = (k' = k \<or> has_key es k)"

text \<open>
  \<^verbatim>\<open>v?.name\<close> for the property names the program reads (\<^verbatim>\<open>errors\<close>, \<^verbatim>\<open>error\<close>,
  \<^verbatim>\<open>message\<close>, \<^verbatim>\<open>extensions\<close>, \<^verbatim>\<open>code\<close>, \<^verbatim>\<open>data\<close>, \<^verbatim>\<open>meta\<close>): only an object has
  them; on \<^verbatim>\<open>null\<close> and \<^verbatim>\<open>undefined\<close> the optional chain gives \<^verbatim>\<open>undefined\<close>, and so
  does the read of a missing property on any other value.
\<close>

fun opt_prop :: "jsval \<Rightarrow> string \<Rightarrow> jsval" where
  "opt_prop (JObj es) k = lookup es k"
| "opt_prop v k = JUndefined"

definition isArray :: "jsval \<Rightarrow> bool" where
  "isArray v = (case v of JArr _ \<Rightarrow> True | _ \<Rightarrow> False)"


section \<open>Strings and percent-encoding\<close>

text \<open>The characters of a string: each byte that is not a continuation byte
  (\<^verbatim>\<open>10xxxxxx\<close>) starts one.\<close>

definition is_continuation :: "char \<Rightarrow> bool" where
  "is_continuation c = (128 \<le> (of_char c :: nat) \<and> (of_char c :: nat) < 192)"

function utf8_chars :: "string \<Rightarrow> string list" where
  "utf8_chars [] = []"
| "utf8_chars (c # cs) = (c # takeWhile is_continuation cs) # utf8_chars (dropWhile is_continuation cs)"
  by pat_completeness auto
termination
  by (relation "measure length") (auto simp: le_imp_less_Suc length_dropWhile_le)

text \<open>
  The white space that \<^verbatim>\<open>s.trim()\<close> removes at both ends, WhiteSpace and LineTerminator
  of ECMAScript, each character in UTF-8: U+0009 to U+000D, U+0020, U+00A0, U+1680,
  U+2000 to U+200A, U+2028, U+2029, U+202F, U+205F, U+3000 and U+FEFF.
\<close>

definition white_space :: "string list" where
  "white_space =
     [[CHR 0x09], [CHR 0x0A], [CHR 0x0B], [CHR 0x0C], [CHR 0x0D], [CHR 0x20],
      [CHR 0xC2, CHR 0xA0], [CHR 0xE1, CHR 0x9A, CHR 0x80],
      [CHR 0xE2, CHR 0x80, CHR 0x80], [CHR 0xE2, CHR 0x80, CHR 0x81], [CHR 0xE2, CHR 0x80, CHR 0x82],
      [CHR 0xE2, CHR 0x80, CHR 0x83], [CHR 0xE2, CHR 0x80, CHR 0x84], [CHR 0xE2, CHR 0x80, CHR 0x85],
      [CHR 0xE2, CHR 0x80, CHR 0x86], [CHR 0xE2, CHR 0x80, CHR 0x87], [CHR 0xE2, CHR 0x80, CHR 0x88],
      [CHR 0xE2, CHR 0x80, CHR 0x89], [CHR 0xE2, CHR 0x80, CHR 0x8A],
      [CHR 0xE2, CHR 0x80, CHR 0xA8], [CHR 0xE2, CHR 0x80, CHR 0xA9], [CHR 0xE2, CHR 0x80, CHR 0xAF],
      [CHR 0xE2, CHR 0x81, CHR 0x9F], [CHR 0xE3, CHR 0x80, CHR 0x80], [CHR 0xEF, CHR 0xBB, CHR 0xBF]]"

definition is_space :: "string \<Rightarrow> bool" where
  "is_space ch = (ch \<in> set white_space)"

definition trim :: "string \<Rightarrow> string" where
  "trim s = concat (rev (dropWhile is_space (rev (dropWhile is_space (utf8_chars s)))))"

text \<open>\<^verbatim>\<open>s.replace(/\/+$/, "")\<close>\<close>

definition strip_trailing_slashes :: "string \<Rightarrow> string" where
  "strip_trailing_slashes s = rev (dropWhile (\<lambda>c. c = CHR ''/'') (rev s))"

definition startsWith :: "string \<Rightarrow> string \<Rightarrow> bool" where
  "startsWith s p = (take (length p) s = p)"

fun includes_js :: "string \<Rightarrow> string \<Rightarrow> bool" where
  "includes_js [] p = (p = [])"
| "includes_js (c # cs) p = (startsWith (c # cs) p \<or> includes_js cs p)"

definition is_alnum :: "char \<Rightarrow> bool" where
  "is_alnum c = (let n = (of_char c :: nat) in
     (48 \<le> n \<and> n \<le> 57) \<or> (65 \<le> n \<and> n \<le> 90) \<or> (97 \<le> n \<and> n \<le> 122))"

definition hex_digit :: "nat \<Rightarrow> char" where
  "hex_digit d = ''0123456789ABCDEF'' ! d"

definition percent :: "char \<Rightarrow> string" where
  "percent c = (let n = (of_char c :: nat) in [CHR ''%'', hex_digit (n div 16), hex_digit (n mod 16)])"

text \<open>The byte serializer of \<^verbatim>\<open>URLSearchParams.toString()\<close>
  (application/x-www-form-urlencoded).\<close>

definition form_byte :: "char \<Rightarrow> string" where
  "form_byte c = (if c = CHR '' '' then ''+''
                  else if is_alnum c \<or> c \<in> set ''*-._'' then [c]
                  else percent c)"

definition form_encode :: "string \<Rightarrow> string" where
  "form_encode s = concat (map form_byte s)"

definition encodeURIComponent :: "string \<Rightarrow> string" where
  "encodeURIComponent s =
     concat (map (\<lambda>c. if is_alnum c \<or> c \<in> set ''-_.!~*()'' \<or> c = CHR 0x27 then [c] else percent c) s)"

fun join_amp :: "string list \<Rightarrow> string" where
  "join_amp [] = ''''"
| "join_amp [p] = p"
| "join_amp (p # q # ps) = p @ ''&'' @ join_amp (q # ps)"

definition searchParams_toString :: "(string \<times> string) list \<Rightarrow> string" where
  "searchParams_toString sp = join_amp (map (\<lambda>(k, v). form_encode k @ ''='' @ form_encode v) sp)"

section \<open>Numbers as text\<close>

text \<open>
  \<^verbatim>\<open>String(n)\<close> for an integer \<open>n\<close>. Below \<open>2^53\<close> every integer is a double and is
  printed in decimal (\<open>digits\<close>). From \<open>2^53\<close> on, \<open>to_double\<close> rounds the integer to 53
  significant bits, ties to even, and \<open>shortest\<close> finds the decimal with the fewest
  significant digits that still rounds to that double (the nearest one, if several do),
  as Number::toString of ECMAScript asks; it is printed in decimal when it has at most 21
  digits and as \<^verbatim>\<open>d.ddde+N\<close> otherwise, and what rounds to \<open>2^1024\<close> or more is
  \<^verbatim>\<open>Infinity\<close>.
\<close>

fun digits :: "nat \<Rightarrow> string" where
  "digits n = (if n < 10 then [''0123456789'' ! n]
               else digits (n div 10) @ [''0123456789'' ! (n mod 10)])"

function decimal :: "int \<Rightarrow> string" where
  "decimal n = (if n < 10 then [''0123456789'' ! nat n]
                else decimal (n div 10) @ [''0123456789'' ! nat (n mod 10)])"
  by pat_completeness auto
termination
  by (relation "measure nat") auto

function bit_length :: "int \<Rightarrow> nat" where
  "bit_length n = (if n \<le> 0 then 0 else Suc (bit_length (n div 2)))"
  by pat_completeness auto
termination
  by (relation "measure nat") auto

definition to_double :: "int \<Rightarrow> int" where
  "to_double a =
     (if bit_length a \<le> 53 then a
      else (let sh = bit_length a - 53; m = a div 2 ^ sh; r = a mod 2 ^ sh; half = 2 ^ (sh - 1)
            in (if half < r \<or> (r = half \<and> odd m) then m + 1 else m) * 2 ^ sh))"

text \<open>The multiples of \<open>10^(d - k)\<close> next to \<open>x\<close>, where \<open>d\<close> is the number of digits of \<open>x\<close>:
  the candidates with \<open>k\<close> significant digits.\<close>

definition candidate :: "int \<Rightarrow> nat \<Rightarrow> int option" where
  "candidate x k =
     (let p = 10 ^ (length (decimal x) - k); lo = (x div p) * p; hi = lo + p
      in if to_double lo = x \<and> to_double hi = x
         then Some (if x - lo < hi - x \<or> (x - lo = hi - x \<and> even (x div p)) then lo else hi)
         else if to_double lo = x then Some lo
         else if to_double hi = x then Some hi
         else None)"

definition shortest :: "int \<Rightarrow> int" where
  "shortest x = (case List.map_filter (candidate x) [1..<18] of [] \<Rightarrow> x | v # _ \<Rightarrow> v)"

definition exponent_form :: "int \<Rightarrow> string" where
  "exponent_form v =
     (case rev (dropWhile (\<lambda>c. c = CHR ''0'') (rev (decimal v))) of
        [] \<Rightarrow> []
      | d # ds \<Rightarrow> d # (if ds = [] then [] else CHR ''.'' # ds) @ ''e+''
                  @ decimal (int (length (decimal v)) - 1))"

definition large_number :: "int \<Rightarrow> string" where
  "large_number a =
     (if 2 ^ 1024 \<le> to_double a then ''Infinity''
      else (let v = shortest (to_double a)
            in if length (decimal v) \<le> 21 then decimal v else exponent_form v))"

section \<open>Conversion to strings\<close>

text \<open>\<^verbatim>\<open>v?.[0]\<close>: the first element of an array, the first character of a string (for a
  character beyond U+FFFF JavaScript gives its first surrogate, which UTF-8 cannot
  write; the model gives the character), the entry \<^verbatim>\<open>"0"\<close> of an object.\<close>

fun opt_first :: "jsval \<Rightarrow> jsval" where
  "opt_first (JArr xs) = (case xs of [] \<Rightarrow> JUndefined | x # _ \<Rightarrow> x)"
| "opt_first (JStr s) = (case utf8_chars s of [] \<Rightarrow> JUndefined | ch # _ \<Rightarrow> JStr ch)"
| "opt_first (JObj es) = lookup es ''0''"
| "opt_first v = JUndefined"

text \<open>\<^verbatim>\<open>String(v)\<close> and \<^verbatim>\<open>xs.join(",")\<close>, which prints \<^verbatim>\<open>null\<close> and
  \<^verbatim>\<open>undefined\<close> elements as the empty string.\<close>

fun String_js :: "jsval \<Rightarrow> string"
  and join_js :: "jsval list \<Rightarrow> string" where
  "String_js JUndefined = ''undefined''"
| "String_js JNull = ''null''"
| "String_js (JBool b) = (if b then ''true'' else ''false'')"
| "String_js (JNum n) =
     (if \<bar>n\<bar> < 9007199254740992
      then (if n < 0 then ''-'' @ digits (nat (- n)) else digits (nat n))
      else (if n < 0 then ''-'' else []) @ large_number \<bar>n\<bar>)"
| "String_js (JNonInt t) = t"
| "String_js (JStr s) = s"
| "String_js (JArr xs) = join_js xs"
| "String_js (JObj es) = ''[object Object]''"
| "join_js [] = ''''"
| "join_js [x] = (if x = JUndefined \<or> x = JNull then '''' else String_js x)"
| "join_js (x # y # ys) =
     (if x = JUndefined \<or> x = JNull then '''' else String_js x) @ '','' @ join_js (y # ys)"

section \<open>The order of \<^verbatim>\<open>Object.entries\<close>\<close>

text \<open>
  \<^verbatim>\<open>Object.entries\<close> lists the keys that are array indices first, in ascending numeric
  order, and then the other keys in insertion order. An array index is the decimal text,
  without leading zero, of an integer from 0 to \<open>2^32 - 2\<close>.
\<close>

definition is_digit :: "char \<Rightarrow> bool" where
  "is_digit c = (48 \<le> (of_char c :: nat) \<and> (of_char c :: nat) \<le> 57)"

definition digits_value :: "string \<Rightarrow> int" where
  "digits_value k = foldl (\<lambda>a c. 10 * a + (of_char c - 48)) 0 k"

definition array_index :: "string \<Rightarrow> int option" where
  "array_index k =
     (if k \<noteq> [] \<and> list_all is_digit k \<and> (k = ''0'' \<or> take 1 k \<noteq> ''0'')
         \<and> digits_value k < 4294967295
      then Some (digits_value k) else None)"

definition index_key :: "string \<times> 'a \<Rightarrow> bool" where
  "index_key e = (array_index (fst e) \<noteq> None)"

definition index_of :: "string \<times> 'a \<Rightarrow> int" where
  "index_of e = (case array_index (fst e) of Some i \<Rightarrow> i | None \<Rightarrow> 0)"

definition Object_entries :: "(string \<times> 'a) list \<Rightarrow> (string \<times> 'a) list" where
  "Object_entries es = sort_key index_of (filter index_key es) @ filter (\<lambda>e. \<not> index_key e) es"

lemma sum_list_insort_key:
  "sum_list (map f (insort_key k x xs)) = (f x :: nat) + sum_list (map f xs)"
  by (induction xs) (auto simp: ac_simps)

lemma sum_list_sort_key: "sum_list (map f (sort_key k xs)) = (sum_list (map f xs) :: nat)"
  by (induction xs) (simp_all add: sum_list_insort_key)

lemma sum_list_partition:
  "sum_list (map f (filter P xs)) + sum_list (map f (filter (\<lambda>x. \<not> P x) xs))
   = sum_list (map (f :: 'a \<Rightarrow> nat) xs)"
  by (induction xs) auto

lemma size_list_Object_entries: "size_list f (Object_entries es) = size_list f es"
proof -
  have "length (filter index_key es) + length (filter (\<lambda>e. \<not> index_key e) es) = length es"
    by (rule sum_length_filter_compl)
  then show ?thesis
    using sum_list_partition [of f index_key es]
    by (simp add: Object_entries_def size_list_conv_sum_list sum_list_sort_key)
qed

section \<open>Query serializer (client.js, lines 13 to 45)\<close>

text \<open>
  \<^verbatim>\<open>searchParams\<close> is the list of pairs appended so far. \<open>appendEntries\<close> is the loop over
  the entries of a nested object, \<open>appendAll\<close> the loop of \<^verbatim>\<open>serializeQuery\<close>; both run over
  \<^verbatim>\<open>Object.entries\<close> of the object.
\<close>

function (sequential) appendQueryParam ::
    "(string \<times> string) list \<Rightarrow> string \<Rightarrow> jsval \<Rightarrow> (string \<times> string) list"
  and appendEntries ::
    "(string \<times> string) list \<Rightarrow> string \<Rightarrow> (string \<times> jsval) list \<Rightarrow> (string \<times> string) list"
  where
  "appendQueryParam sp key JUndefined = sp"
| "appendQueryParam sp key JNull = sp"
| "appendQueryParam sp key (JArr xs) = (if xs = [] then sp else sp @ [(key, join_js xs)])"
| "appendQueryParam sp key (JObj es) = appendEntries sp key (Object_entries es)"
| "appendQueryParam sp key v = sp @ [(key, String_js v)]"
| "appendEntries sp key [] = sp"
| "appendEntries sp key ((nestedKey, nestedValue) # es) =
     appendEntries (appendQueryParam sp (key @ ''['' @ nestedKey @ '']'') nestedValue) key es"
  by pat_completeness auto
termination
  by (relation "measure (\<lambda>x. case x of Inl (sp, key, v) \<Rightarrow> size v
                                | Inr (sp, key, es) \<Rightarrow> size_list (size_prod (\<lambda>k. 0) size) es)")
     (auto simp: size_list_Object_entries)

fun appendAll :: "(string \<times> string) list \<Rightarrow> (string \<times> jsval) list \<Rightarrow> (string \<times> string) list" where
  "appendAll sp [] = sp"
| "appendAll sp ((key, v) # es) = appendAll (appendQueryParam sp key v) es"

definition serializeQuery :: "(string \<times> jsval) list \<Rightarrow> string" where
  "serializeQuery query = searchParams_toString (appendAll [] (Object_entries query))"

subsection \<open>The serializer on values of any kind\<close>

text \<open>
  The values of a query are of type \<^verbatim>\<open>unknown\<close>, and on some that are not JSON data the
  code throws: \<^verbatim>\<open>join\<close> cannot convert a Symbol to a string. The type below adds the
  symbols (by their description) to the values above, and the functions after it are the
  serializer on that type, with the throw. \<^verbatim>\<open>String(v)\<close> itself does not throw on a
  symbol; it gives its description. On a cyclic object the recursion of the code does not
  end (a RangeError, in practice); such an object is not a value of either type.
\<close>

datatype unknown =
    UUndefined
  | UNull
  | UBool bool
  | UNum int
  | UNonInt string
  | UStr string
  | USymbol string
  | UArr "unknown list"
  | UObj "(string \<times> unknown) list"

primrec of_json :: "jsval \<Rightarrow> unknown" where
  "of_json JUndefined = UUndefined"
| "of_json JNull = UNull"
| "of_json (JBool b) = UBool b"
| "of_json (JNum n) = UNum n"
| "of_json (JNonInt t) = UNonInt t"
| "of_json (JStr s) = UStr s"
| "of_json (JArr xs) = UArr (map of_json xs)"
| "of_json (JObj es) = UObj (map (map_prod id of_json) es)"

definition TypeError :: "string \<Rightarrow> jsval" where
  "TypeError msg = JObj [(''name'', JStr ''TypeError''), (''message'', JStr msg)]"

fun ToString :: "unknown \<Rightarrow> string outcome"
  and join_unknown :: "unknown list \<Rightarrow> string outcome" where
  "ToString UUndefined = Returned ''undefined''"
| "ToString UNull = Returned ''null''"
| "ToString (UBool b) = Returned (String_js (JBool b))"
| "ToString (UNum n) = Returned (String_js (JNum n))"
| "ToString (UNonInt t) = Returned t"
| "ToString (UStr s) = Returned s"
| "ToString (USymbol d) = Thrown (TypeError ''Cannot convert a Symbol value to a string'')"
| "ToString (UArr xs) = join_unknown xs"
| "ToString (UObj es) = Returned ''[object Object]''"
| "join_unknown [] = Returned []"
| "join_unknown [x] = (if x = UUndefined \<or> x = UNull then Returned [] else ToString x)"
| "join_unknown (x # y # ys) =
     (case (if x = UUndefined \<or> x = UNull then Returned [] else ToString x) of
        Thrown e \<Rightarrow> Thrown e
      | Returned s \<Rightarrow>
          (case join_unknown (y # ys) of
             Thrown e \<Rightarrow> Thrown e
           | Returned t \<Rightarrow> Returned (s @ '','' @ t)))"

function appendQueryParam_unknown ::
    "(string \<times> string) list \<Rightarrow> string \<Rightarrow> unknown \<Rightarrow> (string \<times> string) list outcome"
  and appendEntries_unknown ::
    "(string \<times> string) list \<Rightarrow> string \<Rightarrow> (string \<times> unknown) list
       \<Rightarrow> (string \<times> string) list outcome"
  where
  "appendQueryParam_unknown sp key UUndefined = Returned sp"
| "appendQueryParam_unknown sp key UNull = Returned sp"
| "appendQueryParam_unknown sp key (UArr xs) =
     (if xs = [] then Returned sp
      else (case join_unknown xs of Thrown e \<Rightarrow> Thrown e | Returned s \<Rightarrow> Returned (sp @ [(key, s)])))"
| "appendQueryParam_unknown sp key (UObj es) = appendEntries_unknown sp key (Object_entries es)"
| "appendQueryParam_unknown sp key (UBool b) = Returned (sp @ [(key, String_js (JBool b))])"
| "appendQueryParam_unknown sp key (UNum n) = Returned (sp @ [(key, String_js (JNum n))])"
| "appendQueryParam_unknown sp key (UNonInt t) = Returned (sp @ [(key, t)])"
| "appendQueryParam_unknown sp key (UStr s) = Returned (sp @ [(key, s)])"
| "appendQueryParam_unknown sp key (USymbol d) = Returned (sp @ [(key, ''Symbol('' @ d @ '')'')])"
| "appendEntries_unknown sp key [] = Returned sp"
| "appendEntries_unknown sp key ((nestedKey, nestedValue) # es) =
     (case appendQueryParam_unknown sp (key @ ''['' @ nestedKey @ '']'') nestedValue of
        Thrown e \<Rightarrow> Thrown e
      | Returned sp' \<Rightarrow> appendEntries_unknown sp' key es)"
  by pat_completeness auto
termination
  by (relation "measure (\<lambda>x. case x of Inl (sp, key, v) \<Rightarrow> size v
                                | Inr (sp, key, es) \<Rightarrow> size_list (size_prod (\<lambda>k. 0) size) es)")
     (auto simp: size_list_Object_entries)

fun appendAll_unknown ::
  "(string \<times> string) list \<Rightarrow> (string \<times> unknown) list \<Rightarrow> (string \<times> string) list outcome" where
  "appendAll_unknown sp [] = Returned sp"
| "appendAll_unknown sp ((key, v) # es) =
     (case appendQueryParam_unknown sp key v of
        Thrown e \<Rightarrow> Thrown e
      | Returned sp' \<Rightarrow> appendAll_unknown sp' es)"

text \<open>
  \<^verbatim>\<open>Object.entries(v)\<close> for a value of any kind: it throws on \<^verbatim>\<open>null\<close> and
  \<^verbatim>\<open>undefined\<close>, lists the elements of an array and the code units of a string under
  their indices, and lists nothing for another primitive. A character beyond U+FFFF is
  two code units, each a lone surrogate, which \<^verbatim>\<open>URLSearchParams\<close> replaces by U+FFFD
  when it is appended; \<open>code_units\<close> gives them so.
\<close>

fun index_entries :: "nat \<Rightarrow> 'a list \<Rightarrow> (string \<times> 'a) list" where
  "index_entries i [] = []"
| "index_entries i (x # xs) = (decimal (int i), x) # index_entries (Suc i) xs"

definition code_units :: "string \<Rightarrow> unknown list" where
  "code_units s =
     concat (map (\<lambda>ch. if length ch = 4
                         then [UStr [CHR 0xEF, CHR 0xBF, CHR 0xBD], UStr [CHR 0xEF, CHR 0xBF, CHR 0xBD]]
                         else [UStr ch])
                 (utf8_chars s))"

fun entries_unknown :: "unknown \<Rightarrow> (string \<times> unknown) list outcome" where
  "entries_unknown UUndefined = Thrown (TypeError ''Cannot convert undefined or null to object'')"
| "entries_unknown UNull = Thrown (TypeError ''Cannot convert undefined or null to object'')"
| "entries_unknown (UObj es) = Returned (Object_entries es)"
| "entries_unknown (UArr xs) = Returned (index_entries 0 xs)"
| "entries_unknown (UStr s) = Returned (index_entries 0 (code_units s))"
| "entries_unknown v = Returned []"

text \<open>\<^verbatim>\<open>serializeQuery(query = {})\<close>: the default replaces \<^verbatim>\<open>undefined\<close>, not \<^verbatim>\<open>null\<close>.\<close>

definition serializeQuery_unknown :: "unknown \<Rightarrow> string outcome" where
  "serializeQuery_unknown query =
     (case entries_unknown (if query = UUndefined then UObj [] else query) of
        Thrown e \<Rightarrow> Thrown e
      | Returned es \<Rightarrow>
          (case appendAll_unknown [] es of
             Thrown e \<Rightarrow> Thrown e
           | Returned sp \<Rightarrow> Returned (searchParams_toString sp)))"

section \<open>Result envelope (client.js, lines 47 to 72)\<close>

datatype error_type = api | config | http | network | not_found | parse | validation

text \<open>\<open>status = None\<close> is \<^verbatim>\<open>status: null\<close>; \<open>error = None\<close> is \<^verbatim>\<open>error: null\<close>.
  The result is a record of four independent fields, as the object literals of the source
  build it: nothing in the type ties \<open>ok\<close> to the other three.\<close>

record ApiError =
  type :: error_type
  message :: jsval
  status :: "int option"
  code :: jsval
  details :: jsval
  retryable :: bool

record ApiResult =
  ok :: bool
  data :: jsval
  meta :: jsval
  error :: "ApiError option"

text \<open>The parameters \<^verbatim>\<open>code\<close> and \<^verbatim>\<open>details\<close> have the default \<^verbatim>\<open>null\<close>, which also
  replaces an argument that is \<^verbatim>\<open>undefined\<close>.\<close>

definition createApiError ::
  "error_type \<Rightarrow> jsval \<Rightarrow> int option \<Rightarrow> jsval \<Rightarrow> jsval \<Rightarrow> bool \<Rightarrow> ApiError" where
  "createApiError t m s c d r =
     \<lparr>type = t, message = m, status = s,
      code = (if c = JUndefined then JNull else c),
      details = (if d = JUndefined then JNull else d),
      retryable = r\<rparr>"

definition createFailureResult :: "ApiError \<Rightarrow> ApiResult" where
  "createFailureResult e = \<lparr>ok = False, data = JNull, meta = JNull, error = Some e\<rparr>"

section \<open>Client core (client.js, lines 1 to 7 and 74 to 248)\<close>

definition sanitizeBaseUrl :: "jsval \<Rightarrow> string option" where
  "sanitizeBaseUrl baseUrl =
     (case baseUrl of
        JStr s \<Rightarrow> (if trim s = [] then None else Some (strip_trailing_slashes (trim s)))
      | _ \<Rightarrow> None)"

text \<open>The token is a value (a string, or \<^verbatim>\<open>null\<close> by default) or a zero-argument
  provider; a provider is given by what its call does, return or throw.\<close>

datatype token_source = TokenValue jsval | TokenProvider "jsval outcome"

fun resolveToken :: "token_source \<Rightarrow> jsval outcome" where
  "resolveToken (TokenValue v) = Returned (if \<not> truthy v then JNull else v)"
| "resolveToken (TokenProvider call) = call"

definition buildUrl :: "string \<Rightarrow> string \<Rightarrow> (string \<times> jsval) list option \<Rightarrow> string" where
  "buildUrl baseUrl path query =
     (let normalizedPath = (if startsWith path ''/'' then path else ''/'' @ path);
          queryString = serializeQuery (case query of None \<Rightarrow> [] | Some q \<Rightarrow> q)
      in if queryString = [] then baseUrl @ normalizedPath
         else baseUrl @ normalizedPath @ ''?'' @ queryString)"

text \<open>What the program reads of a response: \<^verbatim>\<open>ok\<close>, \<^verbatim>\<open>status\<close>,
  \<^verbatim>\<open>headers.get("content-type")\<close> (\<open>None\<close> for \<^verbatim>\<open>null\<close>), and what \<^verbatim>\<open>json()\<close> and
  \<^verbatim>\<open>text()\<close> do once awaited.\<close>

record Response =
  response_ok :: bool
  response_status :: int
  content_type :: "string option"
  json :: "jsval outcome"
  text_body :: "string outcome"

definition parseResponse :: "Response \<Rightarrow> jsval outcome" where
  "parseResponse response =
     (let contentType = (case content_type response of None \<Rightarrow> [] | Some s \<Rightarrow> s);
          isJson = includes_js contentType ''application/json''
      in if isJson then json response
         else (case text_body response of
                 Thrown e \<Rightarrow> Thrown e
               | Returned t \<Rightarrow> Returned (if t \<noteq> [] then JObj [(''raw'', JStr t)] else JObj [])))"

definition status_message :: "string \<Rightarrow> int \<Rightarrow> jsval" where
  "status_message prefix st = JStr (prefix @ String_js (JNum st) @ ''.'')"

definition mapDirectusError :: "jsval \<Rightarrow> int \<Rightarrow> ApiError" where
  "mapDirectusError payload st =
     (let directusError =
            or_js (or_js (or_js (opt_first (opt_prop payload ''errors'')) (opt_prop payload ''error''))
                         (opt_prop payload ''errors''))
                  payload
      in createApiError api
           (or_js (opt_prop directusError ''message'')
                  (status_message ''Directus API request failed with status '' st))
           (Some st)
           (or_js (or_js (opt_prop (opt_prop directusError ''extensions'') ''code'')
                         (opt_prop directusError ''code''))
                  JNull)
           directusError
           (st \<ge> 500))"

definition mapHttpError :: "int \<Rightarrow> jsval \<Rightarrow> ApiError" where
  "mapHttpError st payload =
     createApiError http (status_message ''HTTP request failed with status '' st) (Some st) JNull
       (or_js payload JNull) (st \<ge> 500)"

definition unwrapData :: "jsval \<Rightarrow> jsval \<times> jsval" where
  "unwrapData payload =
     (case payload of
        JObj es \<Rightarrow> (if has_key es ''data'' then (lookup es ''data'', or_js (lookup es ''meta'') JNull)
                    else (payload, JNull))
      | _ \<Rightarrow> (payload, JNull))"

text \<open>A request body is a \<^verbatim>\<open>FormData\<close> instance or any other value; the body handed to
  the transport is the caller's body untouched, or the text \<^verbatim>\<open>JSON.stringify(body)\<close>,
  kept symbolic as \<open>JsonText body\<close>.\<close>

datatype request_body = FormData | Body jsval

datatype wire_body = Untouched request_body | JsonText jsval

record RequestOptions = req_method :: "string option"
  query :: "(string \<times> jsval) list option"
  body :: request_body
  headers :: "(string \<times> string) list"
  signal :: jsval

definition no_options :: RequestOptions where
  "no_options = \<lparr>req_method = None, query = None, body = Body JUndefined, headers = [], signal = JUndefined\<rparr>"

record FetchCall =
  url :: string
  init_method :: string
  init_headers :: "(string \<times> string) list"
  init_body :: wire_body
  init_signal :: jsval

text \<open>Assignment to a property of an object literal: an existing key keeps its place.\<close>

fun set_prop :: "(string \<times> 'a) list \<Rightarrow> string \<Rightarrow> 'a \<Rightarrow> (string \<times> 'a) list" where
  "set_prop [] k v = [(k, v)]"
| "set_prop ((k', v') # es) k v = (if k' = k then (k, v) # es else (k', v') # set_prop es k v)"

fun spread :: "(string \<times> 'a) list \<Rightarrow> (string \<times> 'a) list \<Rightarrow> (string \<times> 'a) list" where
  "spread obj [] = obj"
| "spread obj ((k, v) # es) = spread (set_prop obj k v) es"

definition body_present :: "request_body \<Rightarrow> bool" where
  "body_present b = (case b of FormData \<Rightarrow> False | Body v \<Rightarrow> v \<noteq> JUndefined \<and> v \<noteq> JNull)"

record DirectusClient =
  normalizedBaseUrl :: "string option"
  token :: token_source
  fetchFn :: "FetchCall \<Rightarrow> Response outcome"

definition createDirectusClient ::
  "jsval \<Rightarrow> token_source \<Rightarrow> (FetchCall \<Rightarrow> Response outcome) \<Rightarrow> DirectusClient" where
  "createDirectusClient baseUrl tok f =
     \<lparr>normalizedBaseUrl = sanitizeBaseUrl baseUrl, token = tok, fetchFn = f\<rparr>"

text \<open>
  \<open>request\<close> returns the transport calls it made, in order, and its own outcome:
  \<open>Returned r\<close> when the promise resolves to the result \<open>r\<close>, \<open>Thrown e\<close> when it rejects
  with \<open>e\<close>. \<^verbatim>\<open>!normalizedBaseUrl\<close> holds for \<^verbatim>\<open>null\<close> and for the empty string.
  The body of \<^verbatim>\<open>request\<close> is cut in three: \<open>build_call\<close> is the assembly of headers,
  URL and body (lines 156 to 182), \<open>respond\<close> what follows a response (lines 194 to 223),
  and \<open>dispatch\<close> the token resolution and the transport call between them.
\<close>

definition respond :: "FetchCall \<Rightarrow> Response \<Rightarrow> FetchCall list \<times> ApiResult outcome" where
  "respond call response =
     (case parseResponse response of
        Thrown e \<Rightarrow>
          ([call], Returned (createFailureResult
             (createApiError parse (JStr ''Unable to parse API response.'')
                (Some (response_status response)) JNull e False)))
      | Returned payload \<Rightarrow>
          if \<not> response_ok response then
            (let hasDirectusError =
                   truthy (or_js (opt_prop payload ''errors'') (opt_prop payload ''error''))
             in ([call], Returned (createFailureResult
                   (if hasDirectusError
                    then mapDirectusError payload (response_status response)
                    else mapHttpError (response_status response) payload))))
          else
            (case unwrapData payload of
               (d, m) \<Rightarrow> ([call], Returned \<lparr>ok = True, data = d, meta = m, error = None\<rparr>)))"

definition build_call :: "string \<Rightarrow> jsval \<Rightarrow> string \<Rightarrow> RequestOptions \<Rightarrow> FetchCall" where
  "build_call base resolvedToken path opts =
     (let requestHeaders = spread [(''Accept'', ''application/json'')] (headers opts);
          requestHeaders = (if body_present (body opts)
                            then set_prop requestHeaders ''Content-Type'' ''application/json''
                            else requestHeaders);
          requestHeaders = (if truthy resolvedToken
                            then set_prop requestHeaders ''Authorization''
                                   (''Bearer '' @ String_js resolvedToken)
                            else requestHeaders)
      in \<lparr>url = buildUrl base path (query opts),
          init_method = (case req_method opts of None \<Rightarrow> ''GET'' | Some m \<Rightarrow> m),
          init_headers = requestHeaders,
          init_body = (if body_present (body opts) then
                         (case body opts of Body v \<Rightarrow> JsonText v | FormData \<Rightarrow> Untouched FormData)
                       else Untouched (body opts)),
          init_signal = signal opts\<rparr>)"

definition config_failure :: ApiResult where
  "config_failure =
     createFailureResult
       (createApiError config (JStr ''Directus baseUrl is missing or invalid.'') None JNull JNull False)"

definition dispatch :: "DirectusClient \<Rightarrow> string \<Rightarrow> string \<Rightarrow> RequestOptions \<Rightarrow> FetchCall list \<times> ApiResult outcome" where
  "dispatch c base path opts =
     (case resolveToken (token c) of
        Thrown e \<Rightarrow> ([], Thrown e)
      | Returned resolvedToken \<Rightarrow>
          (let call = build_call base resolvedToken path opts
           in case fetchFn c call of
                Thrown e \<Rightarrow>
                  ([call], Returned (createFailureResult
                     (createApiError network
                        (or_js (opt_prop e ''message'') (JStr ''Network request failed.''))
                        None JNull e True)))
              | Returned response \<Rightarrow> respond call response))"

definition request :: "DirectusClient \<Rightarrow> string \<Rightarrow> RequestOptions \<Rightarrow> FetchCall list \<times> ApiResult outcome" where
  "request c path opts =
     (case normalizedBaseUrl c of
        None \<Rightarrow> ([], Returned config_failure)
      | Some base \<Rightarrow>
          if base = [] then ([], Returned config_failure)
          else dispatch c base path opts)"

definition graphql ::
  "DirectusClient \<Rightarrow> jsval \<Rightarrow> jsval \<Rightarrow> jsval \<Rightarrow> jsval \<Rightarrow> FetchCall list \<times> ApiResult outcome" where
  "graphql c q variables operationName sig =
     request c ''/graphql''
       (no_options\<lparr>req_method := Some ''POST'',
                    body := Body (JObj [(''query'', q), (''variables'', variables),
                                        (''operationName'', operationName)]),
                    signal := sig\<rparr>)"

definition get :: "DirectusClient \<Rightarrow> string \<Rightarrow> RequestOptions \<Rightarrow> FetchCall list \<times> ApiResult outcome" where
  "get c path options = request c path (options\<lparr>req_method := Some ''GET''\<rparr>)"

definition post ::
  "DirectusClient \<Rightarrow> string \<Rightarrow> request_body \<Rightarrow> RequestOptions \<Rightarrow> FetchCall list \<times> ApiResult outcome" where
  "post c path b options = request c path (options\<lparr>req_method := Some ''POST'', body := b\<rparr>)"

definition patch ::
  "DirectusClient \<Rightarrow> string \<Rightarrow> request_body \<Rightarrow> RequestOptions \<Rightarrow> FetchCall list \<times> ApiResult outcome" where
  "patch c path b options = request c path (options\<lparr>req_method := Some ''PATCH'', body := b\<rparr>)"

definition delete :: "DirectusClient \<Rightarrow> string \<Rightarrow> RequestOptions \<Rightarrow> FetchCall list \<times> ApiResult outcome" where
  "delete c path options = request c path (options\<lparr>req_method := Some ''DELETE''\<rparr>)"

section \<open>Products helper (products.js)\<close>

definition toCommaSeparated :: "jsval \<Rightarrow> jsval" where
  "toCommaSeparated v = (case v of JArr xs \<Rightarrow> JStr (join_js xs) | _ \<Rightarrow> v)"

definition createValidationError :: "jsval \<Rightarrow> jsval \<Rightarrow> ApiResult" where
  "createValidationError msg det =
     \<lparr>ok = False, data = JNull, meta = JNull,
      error = Some \<lparr>type = validation, message = msg, status = None, code = JNull,
                    details = det, retryable = False\<rparr>\<rparr>"

text \<open>The options of \<^verbatim>\<open>listProducts\<close>; an absent option is \<open>JUndefined\<close>.\<close>

record ListOptions =
  filter_opt :: jsval
  fields_opt :: jsval
  limit_opt :: jsval
  page_opt :: jsval
  search_opt :: jsval
  sort_opt :: jsval
  signal_opt :: jsval

definition isNumber :: "jsval \<Rightarrow> bool" where
  "isNumber v = (case v of JNum _ \<Rightarrow> True | JNonInt _ \<Rightarrow> True | _ \<Rightarrow> False)"

definition buildProductsQuery :: "ListOptions \<Rightarrow> (string \<times> jsval) list" where
  "buildProductsQuery options =
     (let query = [];
          query = (if truthy (filter_opt options) then set_prop query ''filter'' (filter_opt options) else query);
          query = (if truthy (fields_opt options)
                   then set_prop query ''fields'' (toCommaSeparated (fields_opt options)) else query);
          query = (if truthy (sort_opt options)
                   then set_prop query ''sort'' (toCommaSeparated (sort_opt options)) else query);
          query = (if isNumber (limit_opt options) then set_prop query ''limit'' (limit_opt options) else query);
          query = (if isNumber (page_opt options) then set_prop query ''page'' (page_opt options) else query);
          query = (if truthy (search_opt options) then set_prop query ''search'' (search_opt options) else query)
      in query)"

text \<open>The helper is built over any client: all it uses is the client's \<^verbatim>\<open>get\<close>.\<close>

type_synonym client_get = "string \<Rightarrow> RequestOptions \<Rightarrow> FetchCall list \<times> ApiResult outcome"

record ProductsApi =
  client_get :: client_get
  collectionPath :: string

definition createProductsApi :: "client_get \<Rightarrow> string \<Rightarrow> ProductsApi" where
  "createProductsApi g collection =
     \<lparr>client_get = g, collectionPath = ''/items/'' @ encodeURIComponent collection\<rparr>"

definition listProducts :: "ProductsApi \<Rightarrow> ListOptions \<Rightarrow> FetchCall list \<times> ApiResult outcome" where
  "listProducts papi options =
     (let query = buildProductsQuery options
      in case client_get papi (collectionPath papi)
                (no_options\<lparr>query := Some query, signal := signal_opt options\<rparr>) of
           (calls, Thrown e) \<Rightarrow> (calls, Thrown e)
         | (calls, Returned result) \<Rightarrow>
             if \<not> ok result then (calls, Returned result)
             else
               (let products = (if isArray (data result) then data result else JArr [])
                in (calls, Returned \<lparr>ok = True, data = products,
                                      meta = or_js (meta result) JNull, error = None\<rparr>)))"

definition getProductDetail ::
  "ProductsApi \<Rightarrow> jsval \<Rightarrow> jsval \<Rightarrow> jsval \<Rightarrow> FetchCall list \<times> ApiResult outcome" where
  "getProductDetail papi productId fieldsArg sig =
     (if productId = JUndefined \<or> productId = JNull \<or> productId = JStr [] then
        ([], Returned (createValidationError (JStr ''A valid productId is required.'')
                         (JObj [(''productId'', productId)])))
      else
        (let query = (if truthy fieldsArg then Some [(''fields'', toCommaSeparated fieldsArg)] else None)
         in client_get papi (collectionPath papi @ ''/'' @ encodeURIComponent (String_js productId))
              (no_options\<lparr>query := query, signal := sig\<rparr>)))"

definition queryProducts :: "ProductsApi \<Rightarrow> ListOptions \<Rightarrow> FetchCall list \<times> ApiResult outcome" where
  "queryProducts papi options = listProducts papi options"

section \<open>Predicates used in the statements\<close>


text \<open>A base URL that is absent (\<^verbatim>\<open>undefined\<close>, \<^verbatim>\<open>null\<close>) or blank: a string that is
  empty or has only white-space characters, those of \<open>white_space\<close>.\<close>

definition absent_or_blank :: "jsval \<Rightarrow> bool" where
  "absent_or_blank baseUrl =
     (case baseUrl of JUndefined \<Rightarrow> True | JNull \<Rightarrow> True
      | JStr s \<Rightarrow> list_all is_space (utf8_chars s)
      | _ \<Rightarrow> False)"

text \<open>No transport call was made, and the outcome is a failure result of type \<open>config\<close>.\<close>

definition config_short_circuit :: "FetchCall list \<times> ApiResult outcome \<Rightarrow> bool" where
  "config_short_circuit x =
     (case x of
        ([], Returned r) \<Rightarrow> \<not> ok r \<and> (case error r of Some e \<Rightarrow> type e = config | None \<Rightarrow> False)
      | _ \<Rightarrow> False)"

text \<open>The stubs of client.test.js: a JSON response (\<^verbatim>\<open>createJsonResponse\<close>; the text of the
  body is given beside the body) and a transport that answers every call the same way.\<close>

definition createJsonResponse :: "bool \<Rightarrow> int \<Rightarrow> jsval \<Rightarrow> string \<Rightarrow> Response" where
  "createJsonResponse okv st b txt =
     \<lparr>response_ok = okv, response_status = st, content_type = Some ''application/json'',
      json = Returned b, text_body = Returned txt\<rparr>"

definition stub_fetch :: "Response outcome \<Rightarrow> FetchCall \<Rightarrow> Response outcome" where
  "stub_fetch out call = out"

text \<open>A response with the content type \<open>ct\<close> and the body text \<open>txt\<close>, which is not JSON.\<close>

definition createTextResponse :: "bool \<Rightarrow> int \<Rightarrow> string \<Rightarrow> string \<Rightarrow> Response" where
  "createTextResponse okv st ct txt =
     \<lparr>response_ok = okv, response_status = st, content_type = Some ct,
      json = Thrown (JStr ''SyntaxError''), text_body = Returned txt\<rparr>"

text \<open>A response of the Fetch API has \<^verbatim>\<open>ok\<close> exactly when its status is in 200..299.\<close>

definition is_2xx :: "int \<Rightarrow> bool" where
  "is_2xx st = (200 \<le> st \<and> st \<le> 299)"

definition well_formed :: "Response \<Rightarrow> bool" where
  "well_formed response = (response_ok response = is_2xx (response_status response))"

text \<open>The envelope invariant the code keeps: a success has no error; a failure has
  \<^verbatim>\<open>null\<close> data, \<^verbatim>\<open>null\<close> meta and an error.\<close>

definition envelope :: "ApiResult \<Rightarrow> bool" where
  "envelope r = (if ok r then error r = None
                 else data r = JNull \<and> meta r = JNull \<and> error r \<noteq> None)"

text \<open>The envelope invariant in the words of claim C1: a success moreover has non-null data.\<close>

definition spec_envelope :: "ApiResult \<Rightarrow> bool" where
  "spec_envelope r = (if ok r then data r \<noteq> JNull \<and> error r = None
                      else data r = JNull \<and> meta r = JNull \<and> error r \<noteq> None)"

text \<open>The payload is a plain mapping with a \<^verbatim>\<open>data\<close> key.\<close>

definition has_data :: "jsval \<Rightarrow> bool" where
  "has_data payload = (case payload of JObj es \<Rightarrow> has_key es ''data'' | _ \<Rightarrow> False)"

text \<open>The unwrapping in the words of the specification, with \<^verbatim>\<open>payload.meta ?? null\<close>.\<close>

definition spec_unwrapData :: "jsval \<Rightarrow> jsval \<times> jsval" where
  "spec_unwrapData payload =
     (if has_data payload
      then (opt_prop payload ''data'',
            if nullish (opt_prop payload ''meta'') then JNull else opt_prop payload ''meta'')
      else (payload, JNull))"

text \<open>The retry rule in the words of claim C7: network failures and every status from 500.\<close>

definition spec_retryable :: "ApiError \<Rightarrow> bool" where
  "spec_retryable e = (type e = network \<or> (case status e of Some s \<Rightarrow> 500 \<le> s | None \<Rightarrow> False))"

text \<open>The retry rule of the code: network failures, and \<open>api\<close> and \<open>http\<close> failures with a
  status from 500.\<close>

definition code_retryable :: "ApiError \<Rightarrow> bool" where
  "code_retryable e =
     (type e = network \<or>
      ((type e = api \<or> type e = http) \<and> (case status e of Some s \<Rightarrow> 500 \<le> s | None \<Rightarrow> False)))"

text \<open>A structured error shape in the words of claim C3: an \<^verbatim>\<open>errors\<close> array or an
  \<^verbatim>\<open>error\<close> field.\<close>

definition spec_error_shape :: "jsval \<Rightarrow> bool" where
  "spec_error_shape payload =
     (case payload of JObj es \<Rightarrow> isArray (lookup es ''errors'') \<or> has_key es ''error'' | _ \<Rightarrow> False)"

text \<open>The test of the code, \<^verbatim>\<open>Boolean(payload?.errors || payload?.error)\<close>.\<close>

definition hasDirectusError :: "jsval \<Rightarrow> bool" where
  "hasDirectusError payload = truthy (or_js (opt_prop payload ''errors'') (opt_prop payload ''error''))"

text \<open>The identifier check of \<^verbatim>\<open>getProductDetail\<close>: absent or the empty string.\<close>

definition missing_id :: "jsval \<Rightarrow> bool" where
  "missing_id productId = (productId = JUndefined \<or> productId = JNull \<or> productId = JStr [])"

definition no_list_options :: ListOptions where
  "no_list_options =
     \<lparr>filter_opt = JUndefined, fields_opt = JUndefined, limit_opt = JUndefined, page_opt = JUndefined,
      search_opt = JUndefined, sort_opt = JUndefined, signal_opt = JUndefined\<rparr>"

text \<open>A response that announces JSON but whose \<^verbatim>\<open>json()\<close> rejects with \<open>e\<close>.\<close>

definition broken_json_response :: "bool \<Rightarrow> int \<Rightarrow> jsval \<Rightarrow> Response" where
  "broken_json_response okv st e =
     \<lparr>response_ok = okv, response_status = st, content_type = Some ''application/json'',
      json = Thrown e, text_body = Thrown e\<rparr>"

text \<open>\<^verbatim>\<open>entry?.extensions?.code\<close>\<close>

definition extensions_code :: "jsval \<Rightarrow> jsval" where
  "extensions_code entry = opt_prop (opt_prop entry ''extensions'') ''code''"

text \<open>The content type of the response says JSON (the test of \<^verbatim>\<open>parseResponse\<close>).\<close>

definition isJson :: "Response \<Rightarrow> bool" where
  "isJson response =
     includes_js (case content_type response of None \<Rightarrow> [] | Some s \<Rightarrow> s) ''application/json''"

section \<open>The query serializer\<close>












lemma of_json_nullish:
  "(of_json x = UUndefined) = (x = JUndefined)"
  "(of_json x = UNull) = (x = JNull)"
  by (cases x; simp)+

lemma ToString_agrees: "ToString (of_json v) = Returned (String_js v)"
  and join_agrees: "join_unknown (map of_json xs) = Returned (join_js xs)"
  by (induction v and xs rule: String_js_join_js.induct) (auto simp: of_json_nullish)




lemma serializeQuery_default_query: "serializeQuery_unknown UUndefined = Returned []"
  by (simp add: serializeQuery_unknown_def Object_entries_def searchParams_toString_def)

lemma serializeQuery_null_query:
  "serializeQuery_unknown UNull = Thrown (TypeError ''Cannot convert undefined or null to object'')"
  by (simp add: serializeQuery_unknown_def)

lemma serializeQuery_test_vector:
  "serializeQuery
     [(''limit'', JNum 10),
      (''filter'', JObj [(''status'', JObj [(''_eq'', JStr ''published'')]),
                         (''price'', JObj [(''_lte'', JNum 99)])]),
      (''fields'', JArr [JStr ''id'', JStr ''name''])]
   = ''limit=10&filter%5Bstatus%5D%5B_eq%5D=published&filter%5Bprice%5D%5B_lte%5D=99&fields=id%2Cname''"
  by code_simp

lemma String_js_exponent_form: "String_js (JNum (10 ^ 21)) = ''1e+21''"
  by code_simp

lemma String_js_rounded_integer: "String_js (JNum (2 ^ 64)) = ''18446744073709552000''"
  by code_simp




section \<open>The client core\<close>

lemma trim_blank:
  assumes "list_all is_space (utf8_chars s)"
  shows "trim s = []"
proof -
  have h: "dropWhile is_space (utf8_chars s) = []"
    using assms by (simp add: list_all_iff)
  show ?thesis
    by (simp only: trim_def h rev.simps dropWhile.simps concat.simps)
qed

lemma sanitize_blank: "absent_or_blank b \<Longrightarrow> sanitizeBaseUrl b = None"
  by (cases b) (simp_all add: absent_or_blank_def sanitizeBaseUrl_def trim_blank)

lemma sanitize_cms: "sanitizeBaseUrl (JStr ''http://cms.test'') = Some ''http://cms.test''"
  by code_simp

lemma request_no_base: "normalizedBaseUrl c = None \<Longrightarrow> request c path opts = ([], Returned config_failure)"
  by (simp add: request_def)

lemma config_failure_short: "config_short_circuit ([], Returned config_failure)"
  by (simp add: config_short_circuit_def config_failure_def createFailureResult_def createApiError_def)

text \<open>
  Claim C5. For a client constructed with an absent or blank (empty or whitespace-only) base
  URL, \<open>request\<close>, every verb helper and \<open>graphql\<close> return a failure result whose error
  has type \<open>config\<close>, and the list of transport calls is empty.
\<close>

theorem config_short_circuit_all_verbs:
  assumes "absent_or_blank baseUrl"
  shows "config_short_circuit (request (createDirectusClient baseUrl tok f) path opts)
       \<and> config_short_circuit (get (createDirectusClient baseUrl tok f) path opts)
       \<and> config_short_circuit (post (createDirectusClient baseUrl tok f) path b opts)
       \<and> config_short_circuit (patch (createDirectusClient baseUrl tok f) path b opts)
       \<and> config_short_circuit (delete (createDirectusClient baseUrl tok f) path opts)
       \<and> config_short_circuit (graphql (createDirectusClient baseUrl tok f) q vars opname sig)"
proof -
  have "normalizedBaseUrl (createDirectusClient baseUrl tok f) = None"
    using assms by (simp add: createDirectusClient_def sanitize_blank)
  then have "\<And>p opts. request (createDirectusClient baseUrl tok f) p opts = ([], Returned config_failure)"
    by (rule request_no_base)
  then show ?thesis
    by (simp add: get_def post_def patch_def delete_def graphql_def config_failure_short)
qed

text \<open>
  The base URL of the witness is a no-break space (U+00A0) followed by a space: blank for
  \<^verbatim>\<open>trim\<close>, though not made of ASCII whitespace.
\<close>

theorem config_short_circuit_all_verbs_witness:
  "absent_or_blank (JStr [CHR 0xC2, CHR 0xA0, CHR 0x20])
   \<and> request (createDirectusClient (JStr [CHR 0xC2, CHR 0xA0, CHR 0x20]) (TokenValue (JStr ''t'')) (\<lambda>_. Thrown JNull))
         ''/items/Products'' no_options
       = ([], Returned config_failure)
   \<and> config_short_circuit (get (createDirectusClient (JStr [CHR 0xC2, CHR 0xA0, CHR 0x20]) (TokenValue (JStr ''t'')) (\<lambda>_. Thrown JNull))
         ''/items/Products'' no_options)"
proof -
  have h: "absent_or_blank (JStr [CHR 0xC2, CHR 0xA0, CHR 0x20])"
    by code_simp
  have "normalizedBaseUrl (createDirectusClient (JStr [CHR 0xC2, CHR 0xA0, CHR 0x20]) (TokenValue (JStr ''t'')) (\<lambda>_. Thrown JNull)) = None"
    using h by (simp add: createDirectusClient_def sanitize_blank)
  then have r: "request (createDirectusClient (JStr [CHR 0xC2, CHR 0xA0, CHR 0x20]) (TokenValue (JStr ''t'')) (\<lambda>_. Thrown JNull))
         ''/items/Products'' no_options
       = ([], Returned config_failure)"
    by (rule request_no_base)
  show ?thesis
    using h r config_short_circuit_all_verbs [OF h, of "TokenValue (JStr ''t'')" "\<lambda>_. Thrown JNull" "''/items/Products''" no_options]
    by simp
qed

lemma request_valid_base:
  "normalizedBaseUrl c = Some base \<Longrightarrow> base \<noteq> [] \<Longrightarrow> request c path opts = dispatch c base path opts"
  by (simp add: request_def)

lemma dispatch_thrown:
  "resolveToken (token c) = Returned t \<Longrightarrow> fetchFn c (build_call base t path opts) = Thrown e \<Longrightarrow>
   dispatch c base path opts =
     ([build_call base t path opts],
      Returned (createFailureResult
        (createApiError network (or_js (opt_prop e ''message'') (JStr ''Network request failed.''))
           None JNull e True)))"
  by (simp add: dispatch_def)

lemma dispatch_response:
  "resolveToken (token c) = Returned t \<Longrightarrow> fetchFn c (build_call base t path opts) = Returned response \<Longrightarrow>
   dispatch c base path opts = respond (build_call base t path opts) response"
  by (simp add: dispatch_def)

lemma respond_calls: "fst (respond call response) = [call]"
  by (simp add: respond_def split: outcome.splits prod.splits)

lemma dispatch_calls:
  "resolveToken (token c) = Returned t \<Longrightarrow> fst (dispatch c base path opts) = [build_call base t path opts]"
  by (simp add: dispatch_def respond_calls Let_def split: outcome.splits)

lemma respond_returns: "\<exists>r. snd (respond call response) = Returned r"
  by (simp add: respond_def split: outcome.splits prod.splits)

lemma respond_envelope: "snd (respond call response) = Returned r \<Longrightarrow> envelope r"
  by (auto simp: respond_def envelope_def createFailureResult_def split: outcome.splits prod.splits if_splits)

lemma dispatch_envelope: "snd (dispatch c base path opts) = Returned r \<Longrightarrow> envelope r"
  by (auto simp: dispatch_def envelope_def createFailureResult_def Let_def
      dest: respond_envelope split: outcome.splits)

lemma config_failure_envelope: "envelope config_failure"
  by (simp add: envelope_def config_failure_def createFailureResult_def)

lemma request_envelope: "snd (request c path opts) = Returned r \<Longrightarrow> envelope r"
  by (auto simp: request_def config_failure_envelope dest: dispatch_envelope split: option.splits if_splits)

lemma listProducts_envelope:
  assumes "\<And>p opts r. snd (g p opts) = Returned r \<Longrightarrow> envelope r"
    and "snd (listProducts (createProductsApi g coll) options) = Returned r"
  shows "envelope r \<and> (ok r \<longrightarrow> isArray (data r))"
proof -
  let ?x = "g (''/items/'' @ encodeURIComponent coll)
              (no_options\<lparr>query := Some (buildProductsQuery options), signal := signal_opt options\<rparr>)"
  obtain calls out where x: "?x = (calls, out)" by (cases ?x)
  show ?thesis
  proof (cases out)
    case (Thrown e)
    then show ?thesis
      using assms(2) x by (simp add: listProducts_def createProductsApi_def)
  next
    case (Returned result)
    have "snd ?x = Returned result"
      using x Returned by simp
    then have env: "envelope result"
      by (rule assms(1))
    show ?thesis
    proof (cases "ok result")
      case True
      then show ?thesis
        using assms(2) x Returned
        by (auto simp: listProducts_def createProductsApi_def envelope_def isArray_def)
    next
      case False
      then show ?thesis
        using assms(2) x Returned env
        by (auto simp: listProducts_def createProductsApi_def)
    qed
  qed
qed

lemma getProductDetail_envelope:
  assumes "\<And>p opts r. snd (g p opts) = Returned r \<Longrightarrow> envelope r"
    and "snd (getProductDetail (createProductsApi g coll) productId fieldsArg sig) = Returned r"
  shows "envelope r"
proof (cases "productId = JUndefined \<or> productId = JNull \<or> productId = JStr []")
  case True
  then show ?thesis
    using assms(2) by (auto simp: getProductDetail_def createValidationError_def envelope_def)
next
  case False
  then show ?thesis
    using assms(2) assms(1) by (simp add: getProductDetail_def createProductsApi_def)
qed

lemma get_envelope: "snd (get c path opts) = Returned r \<Longrightarrow> envelope r"
  by (simp add: get_def request_envelope)

text \<open>
  Claim C1, as amended. Every result value returned by \<open>request\<close>, a verb helper, \<open>graphql\<close>,
  \<open>listProducts\<close>, \<open>getProductDetail\<close> or \<open>queryProducts\<close> (the helper built over the
  client's \<open>get\<close>) keeps the envelope: a result with \<open>ok\<close> true has a null error, and a
  result with \<open>ok\<close> false has null data, null meta and a non-null error. The data of a
  success is whatever the payload unwraps to and may be \<^verbatim>\<open>null\<close>; for \<open>listProducts\<close> and
  \<open>queryProducts\<close> it is an array.
\<close>

theorem envelope_consistent:
  "(snd (request c path opts) = Returned r \<longrightarrow> envelope r)
   \<and> (snd (get c path opts) = Returned r \<longrightarrow> envelope r)
   \<and> (snd (post c path b opts) = Returned r \<longrightarrow> envelope r)
   \<and> (snd (patch c path b opts) = Returned r \<longrightarrow> envelope r)
   \<and> (snd (delete c path opts) = Returned r \<longrightarrow> envelope r)
   \<and> (snd (graphql c q vars opname sig) = Returned r \<longrightarrow> envelope r)
   \<and> (snd (listProducts (createProductsApi (get c) coll) options) = Returned r
        \<longrightarrow> envelope r \<and> (ok r \<longrightarrow> isArray (data r)))
   \<and> (snd (getProductDetail (createProductsApi (get c) coll) productId fieldsArg sig) = Returned r
        \<longrightarrow> envelope r)
   \<and> (snd (queryProducts (createProductsApi (get c) coll) options) = Returned r
        \<longrightarrow> envelope r \<and> (ok r \<longrightarrow> isArray (data r)))"
proof -
  have l: "snd (listProducts (createProductsApi (get c) coll) options) = Returned r
        \<longrightarrow> envelope r \<and> (ok r \<longrightarrow> isArray (data r))"
    using listProducts_envelope [of "get c" coll options r] get_envelope [of c] by blast
  have d: "snd (getProductDetail (createProductsApi (get c) coll) productId fieldsArg sig) = Returned r
        \<longrightarrow> envelope r"
    using getProductDetail_envelope [of "get c" coll productId fieldsArg sig r] get_envelope [of c] by blast
  show ?thesis
    using l d
    by (simp add: get_def post_def patch_def delete_def graphql_def queryProducts_def request_envelope)
qed

theorem envelope_consistent_witness:
  "snd (request (createDirectusClient (JStr ''http://cms.test'') (TokenValue JNull)
                   (stub_fetch (Returned (createJsonResponse False 404 (JObj []) ''{}''))))
          ''/items/Products/7'' no_options)
     = Returned (createFailureResult (mapHttpError 404 (JObj [])))
   \<and> envelope (createFailureResult (mapHttpError 404 (JObj [])))"
proof -
  have r: "snd (request (createDirectusClient (JStr ''http://cms.test'') (TokenValue JNull)
                   (stub_fetch (Returned (createJsonResponse False 404 (JObj []) ''{}''))))
          ''/items/Products/7'' no_options)
     = Returned (createFailureResult (mapHttpError 404 (JObj [])))"
    by (simp add: request_def dispatch_def respond_def createDirectusClient_def sanitize_cms stub_fetch_def createJsonResponse_def
        parseResponse_def startsWith_def or_js_def Let_def)
  show ?thesis
    using r envelope_consistent [of "createDirectusClient (JStr ''http://cms.test'') (TokenValue JNull)
                   (stub_fetch (Returned (createJsonResponse False 404 (JObj []) ''{}'')))"
          "''/items/Products/7''" no_options "createFailureResult (mapHttpError 404 (JObj []))"]
    by simp
qed

text \<open>
  The claim as first stated also asks for non-null data in every success. A 2xx response
  whose JSON body is \<^verbatim>\<open>null\<close> gives a success with null data.
\<close>

theorem envelope_null_data_counterexample:
  "snd (request (createDirectusClient (JStr ''http://cms.test'') (TokenValue JNull)
                   (stub_fetch (Returned (createJsonResponse True 200 JNull ''null''))))
          ''/items/Settings'' no_options)
     = Returned \<lparr>ok = True, data = JNull, meta = JNull, error = None\<rparr>
   \<and> \<not> spec_envelope \<lparr>ok = True, data = JNull, meta = JNull, error = None\<rparr>"
  by (simp add: request_def dispatch_def respond_def createDirectusClient_def sanitize_cms stub_fetch_def createJsonResponse_def
      parseResponse_def startsWith_def unwrapData_def spec_envelope_def Let_def)

lemma request_response:
  assumes "normalizedBaseUrl c = Some base" "base \<noteq> []" "resolveToken (token c) = Returned t"
    and "fetchFn c (build_call base t path opts) = Returned response"
  shows "request c path opts = respond (build_call base t path opts) response"
  using assms by (simp add: request_valid_base dispatch_response)

lemma respond_success:
  "response_ok response \<Longrightarrow> parseResponse response = Returned payload \<Longrightarrow>
   respond call response =
     ([call], Returned \<lparr>ok = True, data = fst (unwrapData payload), meta = snd (unwrapData payload),
                         error = None\<rparr>)"
  by (simp add: respond_def split: prod.splits)

lemma respond_failure:
  "\<not> response_ok response \<Longrightarrow> parseResponse response = Returned payload \<Longrightarrow>
   respond call response =
     ([call], Returned (createFailureResult
        (if hasDirectusError payload then mapDirectusError payload (response_status response)
         else mapHttpError (response_status response) payload)))"
  by (simp add: respond_def hasDirectusError_def)

lemma respond_parse_failure:
  "parseResponse response = Thrown e \<Longrightarrow>
   respond call response =
     ([call], Returned (createFailureResult
        (createApiError parse (JStr ''Unable to parse API response.'')
           (Some (response_status response)) JNull e False)))"
  by (simp add: respond_def)

lemma unwrapData_eq:
  "unwrapData payload =
     (if has_data payload then opt_prop payload ''data'' else payload,
      if has_data payload \<and> truthy (opt_prop payload ''meta'') then opt_prop payload ''meta'' else JNull)"
  by (cases payload) (simp_all add: unwrapData_def has_data_def or_js_def)

text \<open>
  Claim C4, as amended. For every 2xx response whose body is parsed: if the payload is a
  plain mapping with a \<^verbatim>\<open>data\<close> key, the result is a success with data \<^verbatim>\<open>payload.data\<close>
  and with meta \<^verbatim>\<open>payload.meta\<close> when that value is truthy and \<^verbatim>\<open>null\<close> otherwise;
  if not, the whole payload is the data and meta is \<^verbatim>\<open>null\<close>.
\<close>

theorem success_unwraps_payload:
  assumes "normalizedBaseUrl c = Some base" and "base \<noteq> []"
    and "resolveToken (token c) = Returned t"
    and "fetchFn c (build_call base t path opts) = Returned response"
    and "well_formed response" and "is_2xx (response_status response)"
    and "parseResponse response = Returned payload"
  shows "snd (request c path opts) =
           Returned \<lparr>ok = True,
                     data = (if has_data payload then opt_prop payload ''data'' else payload),
                     meta = (if has_data payload \<and> truthy (opt_prop payload ''meta'')
                             then opt_prop payload ''meta'' else JNull),
                     error = None\<rparr>"
proof -
  have "response_ok response"
    using assms(5,6) by (simp add: well_formed_def)
  then show ?thesis
    using assms(1-4,7) by (simp add: request_response respond_success unwrapData_eq)
qed

lemma cms_base: "normalizedBaseUrl (createDirectusClient (JStr ''http://cms.test'') tok f) = Some ''http://cms.test''"
  by (simp add: createDirectusClient_def sanitize_cms)

lemma cms_token: "token (createDirectusClient b tok f) = tok"
  by (simp add: createDirectusClient_def)

lemma cms_fetch: "fetchFn (createDirectusClient b tok (stub_fetch out)) call = out"
  by (simp add: createDirectusClient_def stub_fetch_def)

lemma json_response_parse: "parseResponse (createJsonResponse okv st b txt) = Returned b"
  by (simp add: parseResponse_def createJsonResponse_def startsWith_def)

lemma json_response_fields:
  "response_ok (createJsonResponse okv st b txt) = okv"
  "response_status (createJsonResponse okv st b txt) = st"
  by (simp_all add: createJsonResponse_def)

theorem success_unwraps_payload_witness:
  "snd (request (createDirectusClient (JStr ''http://cms.test'') (TokenValue (JStr ''secret''))
                   (stub_fetch (Returned (createJsonResponse True 200
                      (JObj [(''data'', JArr [JNum 1]), (''meta'', JObj [(''filter_count'', JNum 1)])]) []))))
          ''/items/Products'' no_options)
   = Returned \<lparr>ok = True, data = JArr [JNum 1], meta = JObj [(''filter_count'', JNum 1)], error = None\<rparr>"
proof -
  let ?p = "JObj [(''data'', JArr [JNum 1]), (''meta'', JObj [(''filter_count'', JNum 1)])]"
  let ?resp = "createJsonResponse True 200 ?p []"
  let ?c = "createDirectusClient (JStr ''http://cms.test'') (TokenValue (JStr ''secret''))
              (stub_fetch (Returned ?resp))"
  have h1: "normalizedBaseUrl ?c = Some ''http://cms.test''" by (rule cms_base)
  have h2: "''http://cms.test'' \<noteq> []" by simp
  have h3: "resolveToken (token ?c) = Returned (JStr ''secret'')" by (simp add: cms_token)
  have h4: "fetchFn ?c (build_call ''http://cms.test'' (JStr ''secret'') ''/items/Products'' no_options)
              = Returned ?resp" by (rule cms_fetch)
  have h5: "well_formed ?resp" by (simp add: well_formed_def is_2xx_def json_response_fields)
  have h6: "is_2xx (response_status ?resp)" by (simp add: is_2xx_def json_response_fields)
  have h7: "parseResponse ?resp = Returned ?p" by (rule json_response_parse)
  show ?thesis
    using success_unwraps_payload [OF h1 h2 h3 h4 h5 h6 h7] by (simp add: has_data_def)
qed

text \<open>
  The claim as first stated keeps a falsy meta that is not null. With the payload
  \<^verbatim>\<open>{data: [], meta: 0}\<close> the result has meta \<^verbatim>\<open>null\<close>, where the specification's
  \<^verbatim>\<open>payload.meta ?? null\<close> gives 0.
\<close>

theorem unwrap_falsy_meta_counterexample:
  "snd (request (createDirectusClient (JStr ''http://cms.test'') (TokenValue JNull)
                   (stub_fetch (Returned (createJsonResponse True 200
                      (JObj [(''data'', JArr []), (''meta'', JNum 0)]) []))))
          ''/items/Products'' no_options)
     = Returned \<lparr>ok = True, data = JArr [], meta = JNull, error = None\<rparr>
   \<and> spec_unwrapData (JObj [(''data'', JArr []), (''meta'', JNum 0)]) = (JArr [], JNum 0)"
  by (simp add: request_def dispatch_def respond_def createDirectusClient_def sanitize_cms stub_fetch_def createJsonResponse_def
      parseResponse_def startsWith_def unwrapData_def spec_unwrapData_def has_data_def
      nullish_def or_js_def Let_def)

lemma respond_retryable:
  "snd (respond call response) = Returned r \<Longrightarrow> error r = Some e \<Longrightarrow> retryable e = code_retryable e"
  by (auto simp: respond_def createFailureResult_def createApiError_def mapDirectusError_def
      mapHttpError_def code_retryable_def Let_def split: outcome.splits prod.splits if_splits)

lemma dispatch_retryable:
  "snd (dispatch c base path opts) = Returned r \<Longrightarrow> error r = Some e \<Longrightarrow> retryable e = code_retryable e"
  by (auto simp: dispatch_def createFailureResult_def createApiError_def code_retryable_def Let_def
      dest: respond_retryable split: outcome.splits)

lemma config_failure_error:
  "error config_failure =
     Some (createApiError config (JStr ''Directus baseUrl is missing or invalid.'') None JNull JNull False)"
  by (simp add: config_failure_def createFailureResult_def)

text \<open>
  Claim C7, as amended. For every failure result of \<open>request\<close>, the \<open>retryable\<close> flag of the
  error is true exactly when the error is a \<open>network\<close> failure, or an \<open>api\<close> or \<open>http\<close>
  failure whose status is 500 or more; it is false for \<open>config\<close> failures and for \<open>parse\<close>
  failures, whatever their status.
\<close>

theorem retryable_rule:
  assumes "snd (request c path opts) = Returned r" and "error r = Some e"
  shows "retryable e = code_retryable e"
proof (cases "normalizedBaseUrl c")
  case None
  then have "r = config_failure"
    using assms(1) by (simp add: request_def)
  then show ?thesis
    using assms(2) by (auto simp: config_failure_error createApiError_def code_retryable_def)
next
  case (Some base)
  show ?thesis
  proof (cases "base = []")
    case True
    then have "r = config_failure"
      using assms(1) Some by (simp add: request_def)
    then show ?thesis
      using assms(2) by (auto simp: config_failure_error createApiError_def code_retryable_def)
  next
    case False
    then have "snd (dispatch c base path opts) = Returned r"
      using assms(1) Some by (simp add: request_def)
    then show ?thesis
      using assms(2) by (rule dispatch_retryable)
  qed
qed

lemma stub_request:
  "request (createDirectusClient (JStr ''http://cms.test'') (TokenValue JNull) (stub_fetch (Returned response)))
     path opts
   = respond (build_call ''http://cms.test'' JNull path opts) response"
proof -
  let ?c = "createDirectusClient (JStr ''http://cms.test'') (TokenValue JNull) (stub_fetch (Returned response))"
  have h1: "normalizedBaseUrl ?c = Some ''http://cms.test''" by (rule cms_base)
  have h2: "''http://cms.test'' \<noteq> []" by simp
  have h3: "resolveToken (token ?c) = Returned JNull" by (simp add: cms_token)
  have h4: "fetchFn ?c (build_call ''http://cms.test'' JNull path opts) = Returned response"
    by (rule cms_fetch)
  show ?thesis
    by (rule request_response [OF h1 h2 h3 h4])
qed

lemma broken_json_parse: "parseResponse (broken_json_response okv st e) = Thrown e"
  by (simp add: parseResponse_def broken_json_response_def startsWith_def)

lemma broken_json_status: "response_status (broken_json_response okv st e) = st"
  by (simp add: broken_json_response_def)

theorem retryable_rule_witness:
  "snd (request (createDirectusClient (JStr ''http://cms.test'') (TokenValue JNull)
                   (stub_fetch (Returned (broken_json_response False 503 (JStr ''SyntaxError'')))))
          ''/items/Products'' no_options)
     = Returned (createFailureResult
         (createApiError parse (JStr ''Unable to parse API response.'') (Some 503) JNull
            (JStr ''SyntaxError'') False))
   \<and> \<not> code_retryable
         (createApiError parse (JStr ''Unable to parse API response.'') (Some 503) JNull
            (JStr ''SyntaxError'') False)"
proof -
  let ?e = "createApiError parse (JStr ''Unable to parse API response.'') (Some 503) JNull
              (JStr ''SyntaxError'') False"
  let ?c = "createDirectusClient (JStr ''http://cms.test'') (TokenValue JNull)
              (stub_fetch (Returned (broken_json_response False 503 (JStr ''SyntaxError''))))"
  have r: "snd (request ?c ''/items/Products'' no_options) = Returned (createFailureResult ?e)"
    by (simp add: stub_request respond_parse_failure [OF broken_json_parse] broken_json_status)
  have e: "error (createFailureResult ?e) = Some ?e"
    by (simp add: createFailureResult_def)
  have "retryable ?e = code_retryable ?e"
    using retryable_rule [OF r e] .
  then show ?thesis
    using r by (simp add: createApiError_def)
qed

text \<open>
  The claim as first stated makes every failure with a status from 500 retryable. A 503
  response that announces JSON and whose body does not decode gives a \<open>parse\<close> failure with
  status 503 and \<open>retryable\<close> false.
\<close>

theorem retryable_parse_5xx_counterexample:
  "snd (request (createDirectusClient (JStr ''http://cms.test'') (TokenValue JNull)
                   (stub_fetch (Returned (broken_json_response False 503 (JStr ''SyntaxError'')))))
          ''/items/Products'' no_options)
     = Returned \<lparr>ok = False, data = JNull, meta = JNull,
                  error = Some \<lparr>type = parse, message = JStr ''Unable to parse API response.'',
                                status = Some 503, code = JNull, details = JStr ''SyntaxError'',
                                retryable = False\<rparr>\<rparr>
   \<and> spec_retryable \<lparr>type = parse, message = JStr ''Unable to parse API response.'',
                      status = Some 503, code = JNull, details = JStr ''SyntaxError'',
                      retryable = False\<rparr>"
  by (simp add: stub_request respond_parse_failure [OF broken_json_parse] broken_json_status
      createFailureResult_def createApiError_def spec_retryable_def)

lemma request_returns_when_token_resolves:
  assumes "resolveToken (token c) = Returned t"
  shows "\<exists>calls r. request c path opts = (calls, Returned r)"
proof -
  have d: "\<exists>calls r. dispatch c base path opts = (calls, Returned r)" for base
  proof (cases "fetchFn c (build_call base t path opts)")
    case (Thrown e)
    then show ?thesis
      using assms by (simp add: dispatch_thrown)
  next
    case (Returned response)
    obtain calls out where x: "respond (build_call base t path opts) response = (calls, out)"
      by (cases "respond (build_call base t path opts) response")
    obtain r where "out = Returned r"
      using respond_returns [of "build_call base t path opts" response] x by auto
    then show ?thesis
      using assms Returned x by (simp add: dispatch_response)
  qed
  show ?thesis
    using d by (simp add: request_def split: option.splits)
qed

text \<open>
  Claim C2 says that \<open>request\<close> returns a result value whatever the transport, the token
  resolver and the response body do. The transport call and the parsing of the body are
  guarded, and for a path that is a string and a query that is a mapping of JSON values
  \<open>request_returns_when_token_resolves\<close> above shows that nothing escapes once the token
  is resolved. The call of the token provider is not guarded, and neither is the assembly
  of the URL that follows it (client.js, lines 165 and 170), which throws on a path that is
  not a string and on a query that \<^verbatim>\<open>serializeQuery\<close> throws on. With a provider that
  throws, \<open>request\<close> makes no transport call and throws the provider's error.
\<close>

theorem request_token_provider_throws:
  "request (createDirectusClient (JStr ''http://cms.test'')
              (TokenProvider (Thrown (JObj [(''message'', JStr ''token service unavailable'')])))
              (stub_fetch (Returned (createJsonResponse True 200 (JObj [(''data'', JArr [])]) []))))
     ''/items/Products'' no_options
   = ([], Thrown (JObj [(''message'', JStr ''token service unavailable'')]))"
  by (simp add: request_def cms_base dispatch_def cms_token)

lemma hasDirectusError_iff:
  "hasDirectusError payload = (truthy (opt_prop payload ''errors'') \<or> truthy (opt_prop payload ''error''))"
  by (simp add: hasDirectusError_def or_js_def)

lemma mapDirectusError_fields:
  "type (mapDirectusError payload st) = api"
  "status (mapDirectusError payload st) = Some st"
  "retryable (mapDirectusError payload st) = (500 \<le> st)"
  by (simp_all add: mapDirectusError_def createApiError_def Let_def)

lemma mapHttpError_fields:
  "type (mapHttpError st payload) = http"
  "status (mapHttpError st payload) = Some st"
  "retryable (mapHttpError st payload) = (500 \<le> st)"
  by (simp_all add: mapHttpError_def createApiError_def)

lemma mapDirectusError_first_code:
  assumes "truthy (opt_first (opt_prop payload ''errors''))"
    and "truthy (extensions_code (opt_first (opt_prop payload ''errors'')))"
  shows "code (mapDirectusError payload st) = extensions_code (opt_first (opt_prop payload ''errors''))"
    and "details (mapDirectusError payload st) = opt_first (opt_prop payload ''errors'')"
  using assms by (auto simp: mapDirectusError_def createApiError_def or_js_def extensions_code_def Let_def)

lemma parse_text:
  "\<not> isJson response \<Longrightarrow> text_body response = Returned txt \<Longrightarrow>
   parseResponse response = Returned (if txt = [] then JObj [] else JObj [(''raw'', JStr txt)])"
  by (simp add: parseResponse_def isJson_def)

text \<open>
  Claim C3, as amended. For a request with a valid base URL and a resolved token: if the
  transport call throws, the result is a failure of type \<open>network\<close> with \<open>retryable\<close> true.
  If the response status is not 2xx and the body is parsed, the failure carries the
  response status, and its type is \<open>api\<close> when the payload has a truthy \<^verbatim>\<open>errors\<close> value
  (every array is one) or a truthy \<^verbatim>\<open>error\<close> value, and \<open>http\<close> otherwise; when the first
  entry of \<^verbatim>\<open>errors\<close> is truthy and has a truthy \<^verbatim>\<open>extensions.code\<close>, that is the \<open>code\<close>
  of the failure. A 2xx response whose content type is not JSON is a success whose data is
  \<^verbatim>\<open>{raw: text}\<close>, or \<^verbatim>\<open>{}\<close> for an empty text, with null meta.
\<close>

theorem error_classification:
  assumes "normalizedBaseUrl c = Some base" and "base \<noteq> []"
    and "resolveToken (token c) = Returned t"
  shows
    "(fetchFn c (build_call base t path opts) = Thrown e \<longrightarrow>
        (\<exists>err. snd (request c path opts) = Returned (createFailureResult err)
               \<and> type err = network \<and> retryable err))
   \<and> (fetchFn c (build_call base t path opts) = Returned response \<and> well_formed response
        \<and> \<not> is_2xx (response_status response) \<and> parseResponse response = Returned payload \<longrightarrow>
        (\<exists>err. snd (request c path opts) = Returned (createFailureResult err)
               \<and> status err = Some (response_status response)
               \<and> type err = (if truthy (opt_prop payload ''errors'') \<or> truthy (opt_prop payload ''error'')
                              then api else http)
               \<and> (isArray (opt_prop payload ''errors'') \<longrightarrow> type err = api)
               \<and> (truthy (opt_first (opt_prop payload ''errors''))
                    \<and> truthy (extensions_code (opt_first (opt_prop payload ''errors'')))
                   \<longrightarrow> code err = extensions_code (opt_first (opt_prop payload ''errors'')))))
   \<and> (fetchFn c (build_call base t path opts) = Returned response \<and> well_formed response
        \<and> is_2xx (response_status response) \<and> \<not> isJson response
        \<and> text_body response = Returned txt \<longrightarrow>
        snd (request c path opts) =
          Returned \<lparr>ok = True, data = (if txt = [] then JObj [] else JObj [(''raw'', JStr txt)]),
                    meta = JNull, error = None\<rparr>)"
proof (intro conjI impI)
  assume "fetchFn c (build_call base t path opts) = Thrown e"
  then have "snd (request c path opts) =
      Returned (createFailureResult (createApiError network
         (or_js (opt_prop e ''message'') (JStr ''Network request failed.'')) None JNull e True))"
    using assms by (simp add: request_valid_base dispatch_thrown)
  moreover have "type (createApiError network
         (or_js (opt_prop e ''message'') (JStr ''Network request failed.'')) None JNull e True) = network"
    and "retryable (createApiError network
         (or_js (opt_prop e ''message'') (JStr ''Network request failed.'')) None JNull e True)"
    by (simp_all add: createApiError_def)
  ultimately show "\<exists>err. snd (request c path opts) = Returned (createFailureResult err)
               \<and> type err = network \<and> retryable err"
    by blast
next
  assume a: "fetchFn c (build_call base t path opts) = Returned response \<and> well_formed response
        \<and> \<not> is_2xx (response_status response) \<and> parseResponse response = Returned payload"
  let ?st = "response_status response"
  let ?err = "if hasDirectusError payload then mapDirectusError payload ?st else mapHttpError ?st payload"
  have nok: "\<not> response_ok response"
    using a by (simp add: well_formed_def)
  have r: "snd (request c path opts) = Returned (createFailureResult ?err)"
    using assms a nok by (simp add: request_response respond_failure)
  have s: "status ?err = Some ?st"
    by (simp add: mapDirectusError_fields mapHttpError_fields)
  have t: "type ?err = (if truthy (opt_prop payload ''errors'') \<or> truthy (opt_prop payload ''error'')
                              then api else http)"
    by (simp add: mapDirectusError_fields mapHttpError_fields hasDirectusError_iff)
  have arr: "isArray (opt_prop payload ''errors'') \<longrightarrow> type ?err = api"
    by (cases "opt_prop payload ''errors''")
       (simp_all add: isArray_def hasDirectusError_iff mapDirectusError_fields)
  have first: "truthy (opt_first (opt_prop payload ''errors'')) \<longrightarrow> truthy (opt_prop payload ''errors'')"
    by (cases "opt_prop payload ''errors''") (auto split: list.splits)
  have c: "truthy (opt_first (opt_prop payload ''errors''))
                    \<and> truthy (extensions_code (opt_first (opt_prop payload ''errors'')))
                   \<longrightarrow> code ?err = extensions_code (opt_first (opt_prop payload ''errors''))"
    using first by (simp add: hasDirectusError_iff mapDirectusError_first_code)
  show "\<exists>err. snd (request c path opts) = Returned (createFailureResult err)
               \<and> status err = Some (response_status response)
               \<and> type err = (if truthy (opt_prop payload ''errors'') \<or> truthy (opt_prop payload ''error'')
                              then api else http)
               \<and> (isArray (opt_prop payload ''errors'') \<longrightarrow> type err = api)
               \<and> (truthy (opt_first (opt_prop payload ''errors''))
                    \<and> truthy (extensions_code (opt_first (opt_prop payload ''errors'')))
                   \<longrightarrow> code err = extensions_code (opt_first (opt_prop payload ''errors'')))"
    using r s t arr c by blast
next
  assume a: "fetchFn c (build_call base t path opts) = Returned response \<and> well_formed response
        \<and> is_2xx (response_status response) \<and> \<not> isJson response
        \<and> text_body response = Returned txt"
  have okr: "response_ok response"
    using a by (simp add: well_formed_def)
  have p: "parseResponse response = Returned (if txt = [] then JObj [] else JObj [(''raw'', JStr txt)])"
    using a by (simp add: parse_text)
  show "snd (request c path opts) =
          Returned \<lparr>ok = True, data = (if txt = [] then JObj [] else JObj [(''raw'', JStr txt)]),
                    meta = JNull, error = None\<rparr>"
    using assms a okr by (simp add: request_response respond_success [OF okr p] unwrapData_def)
qed

lemma stub_client_facts:
  "normalizedBaseUrl (createDirectusClient (JStr ''http://cms.test'') tok (stub_fetch out)) = Some ''http://cms.test''"
  "token (createDirectusClient (JStr ''http://cms.test'') tok (stub_fetch out)) = tok"
  "fetchFn (createDirectusClient (JStr ''http://cms.test'') tok (stub_fetch out)) call = out"
  by (simp_all add: cms_base cms_token cms_fetch)

theorem error_classification_witness:
  "(\<exists>err. snd (request (createDirectusClient (JStr ''http://cms.test'') (TokenValue JNull)
                         (stub_fetch (Thrown (JObj [(''message'', JStr ''ECONNREFUSED'')]))))
                ''/items/Products'' no_options)
            = Returned (createFailureResult err)
          \<and> type err = network \<and> retryable err)
   \<and> (\<exists>err. snd (request (createDirectusClient (JStr ''http://cms.test'') (TokenValue JNull)
                        (stub_fetch (Returned (createJsonResponse False 400
                           (JObj [(''errors'', JArr [JObj [(''message'', JStr ''Invalid query''),
                                    (''extensions'', JObj [(''code'', JStr ''FAILED_VALIDATION'')])]])]) []))))
               ''/items/Products'' no_options)
           = Returned (createFailureResult err)
         \<and> status err = Some 400 \<and> type err = api \<and> code err = JStr ''FAILED_VALIDATION'')
   \<and> (\<exists>err. snd (request (createDirectusClient (JStr ''http://cms.test'') (TokenValue JNull)
                        (stub_fetch (Returned (createJsonResponse False 400 (JObj []) ''{}''))))
               ''/items/Products'' no_options)
           = Returned (createFailureResult err)
         \<and> status err = Some 400 \<and> type err = http)
   \<and> snd (request (createDirectusClient (JStr ''http://cms.test'') (TokenValue JNull)
                        (stub_fetch (Returned (createTextResponse True 200 ''text/plain'' ''pong''))))
               ''/server/ping'' no_options)
       = Returned \<lparr>ok = True, data = JObj [(''raw'', JStr ''pong'')], meta = JNull, error = None\<rparr>"
proof -
  have h2: "''http://cms.test'' \<noteq> []" by simp
  have h3: "resolveToken (token (createDirectusClient (JStr ''http://cms.test'') (TokenValue JNull) f))
              = Returned JNull" for f
    by (simp add: cms_token)
  let ?e = "JObj [(''message'', JStr ''ECONNREFUSED'')]"
  let ?c1 = "createDirectusClient (JStr ''http://cms.test'') (TokenValue JNull) (stub_fetch (Thrown ?e))"
  have n: "fetchFn ?c1 (build_call ''http://cms.test'' JNull ''/items/Products'' no_options) = Thrown ?e"
    by (rule stub_client_facts)
  have w1: "\<exists>err. snd (request ?c1 ''/items/Products'' no_options) = Returned (createFailureResult err)
          \<and> type err = network \<and> retryable err"
    using error_classification [OF stub_client_facts(1) h2 h3, of "Thrown ?e" "''/items/Products''" no_options ?e]
      n by blast
  let ?p = "JObj [(''errors'', JArr [JObj [(''message'', JStr ''Invalid query''),
                                    (''extensions'', JObj [(''code'', JStr ''FAILED_VALIDATION'')])]])]"
  let ?r2 = "createJsonResponse False 400 ?p []"
  let ?c2 = "createDirectusClient (JStr ''http://cms.test'') (TokenValue JNull) (stub_fetch (Returned ?r2))"
  have a4: "fetchFn ?c2 (build_call ''http://cms.test'' JNull ''/items/Products'' no_options) = Returned ?r2"
    by (rule stub_client_facts)
  have a5: "well_formed ?r2" "\<not> is_2xx (response_status ?r2)" "parseResponse ?r2 = Returned ?p"
    by (simp_all add: well_formed_def is_2xx_def json_response_fields json_response_parse)
  have w2: "\<exists>err. snd (request ?c2 ''/items/Products'' no_options) = Returned (createFailureResult err)
         \<and> status err = Some 400 \<and> type err = api \<and> code err = JStr ''FAILED_VALIDATION''"
    using error_classification [OF stub_client_facts(1) h2 h3, of "Returned ?r2" "''/items/Products''" no_options
        JNull ?r2 ?p "[]"] a4 a5
    by (simp add: extensions_code_def isArray_def json_response_fields)
  let ?r3 = "createJsonResponse False 400 (JObj []) ''{}''"
  let ?c3 = "createDirectusClient (JStr ''http://cms.test'') (TokenValue JNull) (stub_fetch (Returned ?r3))"
  have b4: "fetchFn ?c3 (build_call ''http://cms.test'' JNull ''/items/Products'' no_options) = Returned ?r3"
    by (rule stub_client_facts)
  have b5: "well_formed ?r3" "\<not> is_2xx (response_status ?r3)" "parseResponse ?r3 = Returned (JObj [])"
    by (simp_all add: well_formed_def is_2xx_def json_response_fields json_response_parse)
  have w3: "\<exists>err. snd (request ?c3 ''/items/Products'' no_options) = Returned (createFailureResult err)
         \<and> status err = Some 400 \<and> type err = http"
    using error_classification [OF stub_client_facts(1) h2 h3, of "Returned ?r3" "''/items/Products''" no_options
        JNull ?r3 "JObj []" "[]"] b4 b5
    by (simp add: json_response_fields isArray_def)
  let ?r4 = "createTextResponse True 200 ''text/plain'' ''pong''"
  let ?c4 = "createDirectusClient (JStr ''http://cms.test'') (TokenValue JNull) (stub_fetch (Returned ?r4))"
  have c4: "fetchFn ?c4 (build_call ''http://cms.test'' JNull ''/server/ping'' no_options) = Returned ?r4"
    by (rule stub_client_facts)
  have c5: "well_formed ?r4" "is_2xx (response_status ?r4)" "\<not> isJson ?r4"
    "text_body ?r4 = Returned ''pong''"
    by (simp_all add: well_formed_def is_2xx_def createTextResponse_def isJson_def startsWith_def)
  have w4: "snd (request ?c4 ''/server/ping'' no_options)
       = Returned \<lparr>ok = True, data = JObj [(''raw'', JStr ''pong'')], meta = JNull, error = None\<rparr>"
    using error_classification [OF stub_client_facts(1) h2 h3, of "Returned ?r4" "''/server/ping''" no_options
        JNull ?r4 JNull "''pong''"] c4 c5
    by simp
  show ?thesis
    using w1 w2 w3 w4 by blast
qed

text \<open>
  The claim as first stated counts every \<^verbatim>\<open>error\<close> field as a structured error shape. A
  400 response with the payload \<^verbatim>\<open>{error: ""}\<close> has an \<^verbatim>\<open>error\<close> field and is classified
  \<open>http\<close>, since the field is falsy.
\<close>

theorem falsy_error_field_counterexample:
  "spec_error_shape (JObj [(''error'', JStr [])])
   \<and> snd (request (createDirectusClient (JStr ''http://cms.test'') (TokenValue JNull)
                     (stub_fetch (Returned (createJsonResponse False 400 (JObj [(''error'', JStr [])]) []))))
            ''/items/Products'' no_options)
       = Returned \<lparr>ok = False, data = JNull, meta = JNull,
                    error = Some \<lparr>type = http, message = JStr ''HTTP request failed with status 400.'',
                                  status = Some 400, code = JNull, details = JObj [(''error'', JStr [])],
                                  retryable = False\<rparr>\<rparr>"
  by (simp add: spec_error_shape_def stub_request respond_failure json_response_fields
      json_response_parse hasDirectusError_iff mapHttpError_def createApiError_def
      createFailureResult_def status_message_def or_js_def)

text \<open>
  Claim C10, as amended. If the parsed payload of a non-2xx response has a truthy \<^verbatim>\<open>errors\<close>
  value whose first entry is missing or falsy, the failure is still of type \<open>api\<close>, with the
  response status. When moreover \<^verbatim>\<open>errors\<close> is an array and the payload has no truthy
  \<^verbatim>\<open>error\<close> value, the message is the generic
  \<^verbatim>\<open>Directus API request failed with status N.\<close>, the code is \<^verbatim>\<open>null\<close> and the details are
  the \<^verbatim>\<open>errors\<close> array.
\<close>

theorem truthy_errors_without_first_entry:
  assumes "normalizedBaseUrl c = Some base" and "base \<noteq> []"
    and "resolveToken (token c) = Returned t"
    and "fetchFn c (build_call base t path opts) = Returned response"
    and "well_formed response" and "\<not> is_2xx (response_status response)"
    and "parseResponse response = Returned payload"
    and "truthy (opt_prop payload ''errors'')"
    and "\<not> truthy (opt_first (opt_prop payload ''errors''))"
  shows "\<exists>err. snd (request c path opts) = Returned (createFailureResult err)
           \<and> type err = api \<and> status err = Some (response_status response)
           \<and> (isArray (opt_prop payload ''errors'') \<and> \<not> truthy (opt_prop payload ''error'') \<longrightarrow>
                message err = status_message ''Directus API request failed with status ''
                                (response_status response)
                \<and> code err = JNull \<and> details err = opt_prop payload ''errors'')"
proof -
  let ?st = "response_status response"
  have nok: "\<not> response_ok response"
    using assms(5,6) by (simp add: well_formed_def)
  have h: "hasDirectusError payload"
    using assms(8) by (simp add: hasDirectusError_iff)
  have r: "snd (request c path opts) = Returned (createFailureResult (mapDirectusError payload ?st))"
    using assms(1-4,7) nok h by (simp add: request_response respond_failure)
  have fallback: "isArray (opt_prop payload ''errors'') \<and> \<not> truthy (opt_prop payload ''error'') \<longrightarrow>
                message (mapDirectusError payload ?st)
                  = status_message ''Directus API request failed with status '' ?st
                \<and> code (mapDirectusError payload ?st) = JNull
                \<and> details (mapDirectusError payload ?st) = opt_prop payload ''errors''"
    using assms(9)
    by (cases "opt_prop payload ''errors''")
       (simp_all add: isArray_def mapDirectusError_def createApiError_def or_js_def Let_def)
  show ?thesis
    using r fallback mapDirectusError_fields(1,2) [of payload ?st] by blast
qed

theorem truthy_errors_without_first_entry_witness:
  "\<exists>err. snd (request (createDirectusClient (JStr ''http://cms.test'') (TokenValue JNull)
                        (stub_fetch (Returned (createJsonResponse False 400
                           (JObj [(''errors'', JArr [])]) []))))
               ''/items/Products'' no_options)
           = Returned (createFailureResult err)
         \<and> type err = api \<and> status err = Some 400
         \<and> message err = JStr ''Directus API request failed with status 400.''
         \<and> code err = JNull \<and> details err = JArr []"
proof -
  let ?p = "JObj [(''errors'', JArr [])]"
  let ?resp = "createJsonResponse False 400 ?p []"
  let ?c = "createDirectusClient (JStr ''http://cms.test'') (TokenValue JNull) (stub_fetch (Returned ?resp))"
  have h1: "normalizedBaseUrl ?c = Some ''http://cms.test''" by (rule stub_client_facts)
  have h2: "''http://cms.test'' \<noteq> []" by simp
  have h3: "resolveToken (token ?c) = Returned JNull" by (simp add: stub_client_facts)
  have h4: "fetchFn ?c (build_call ''http://cms.test'' JNull ''/items/Products'' no_options) = Returned ?resp"
    by (rule stub_client_facts)
  have h5: "well_formed ?resp" by (simp add: well_formed_def is_2xx_def json_response_fields)
  have h6: "\<not> is_2xx (response_status ?resp)" by (simp add: is_2xx_def json_response_fields)
  have h7: "parseResponse ?resp = Returned ?p" by (rule json_response_parse)
  have h8: "truthy (opt_prop ?p ''errors'')" by simp
  have h9: "\<not> truthy (opt_first (opt_prop ?p ''errors''))" by simp
  show ?thesis
    using truthy_errors_without_first_entry [OF h1 h2 h3 h4 h5 h6 h7 h8 h9]
    by (simp add: json_response_fields isArray_def status_message_def)
qed

text \<open>
  The claim as first stated promises the generic message and the null code for every such
  payload. With \<^verbatim>\<open>{errors: [], error: {message: "boom", code: "E_BOOM"}}\<close> the \<^verbatim>\<open>errors\<close>
  array is truthy and has no first entry, and the failure takes message and code from the
  \<^verbatim>\<open>error\<close> field.
\<close>

theorem empty_errors_with_error_field_counterexample:
  "truthy (opt_prop (JObj [(''errors'', JArr []),
                           (''error'', JObj [(''message'', JStr ''boom''), (''code'', JStr ''E_BOOM'')])])
             ''errors'')
   \<and> opt_first (opt_prop (JObj [(''errors'', JArr []),
                           (''error'', JObj [(''message'', JStr ''boom''), (''code'', JStr ''E_BOOM'')])])
             ''errors'') = JUndefined
   \<and> snd (request (createDirectusClient (JStr ''http://cms.test'') (TokenValue JNull)
                     (stub_fetch (Returned (createJsonResponse False 400
                        (JObj [(''errors'', JArr []),
                               (''error'', JObj [(''message'', JStr ''boom''), (''code'', JStr ''E_BOOM'')])])
                        []))))
            ''/items/Products'' no_options)
       = Returned \<lparr>ok = False, data = JNull, meta = JNull,
                    error = Some \<lparr>type = api, message = JStr ''boom'', status = Some 400,
                                  code = JStr ''E_BOOM'',
                                  details = JObj [(''message'', JStr ''boom''), (''code'', JStr ''E_BOOM'')],
                                  retryable = False\<rparr>\<rparr>"
  by (simp add: stub_request respond_failure json_response_fields json_response_parse
      hasDirectusError_iff mapDirectusError_def createApiError_def createFailureResult_def or_js_def Let_def)

section \<open>The products helper\<close>

text \<open>
  Claim C8. When the client's \<open>get\<close> returns a success, \<open>listProducts\<close> returns a success
  with the same data if that is an array and with the empty array if not; so the data of
  a successful \<open>listProducts\<close> result is always an array. \<open>queryProducts\<close> is the same
  function.
\<close>

theorem listProducts_array_normalization:
  "(client_get papi (collectionPath papi)
      (no_options\<lparr>query := Some (buildProductsQuery options), signal := signal_opt options\<rparr>)
      = (calls, Returned result) \<and> ok result \<longrightarrow>
      listProducts papi options =
        (calls, Returned \<lparr>ok = True,
                           data = (if isArray (data result) then data result else JArr []),
                           meta = or_js (meta result) JNull, error = None\<rparr>))
   \<and> (snd (listProducts papi options) = Returned r \<and> ok r \<longrightarrow> isArray (data r))
   \<and> queryProducts papi options = listProducts papi options"
proof (intro conjI impI)
  assume "client_get papi (collectionPath papi)
      (no_options\<lparr>query := Some (buildProductsQuery options), signal := signal_opt options\<rparr>)
      = (calls, Returned result) \<and> ok result"
  then show "listProducts papi options =
        (calls, Returned \<lparr>ok = True,
                           data = (if isArray (data result) then data result else JArr []),
                           meta = or_js (meta result) JNull, error = None\<rparr>)"
    by (simp add: listProducts_def)
next
  assume a: "snd (listProducts papi options) = Returned r \<and> ok r"
  let ?x = "client_get papi (collectionPath papi)
      (no_options\<lparr>query := Some (buildProductsQuery options), signal := signal_opt options\<rparr>)"
  obtain calls' out where x: "?x = (calls', out)" by (cases ?x)
  show "isArray (data r)"
  proof (cases out)
    case (Thrown e)
    then show ?thesis
      using a x by (simp add: listProducts_def)
  next
    case (Returned result)
    then show ?thesis
      using a x by (cases "ok result") (auto simp: listProducts_def isArray_def)
  qed
next
  show "queryProducts papi options = listProducts papi options"
    by (simp add: queryProducts_def)
qed

theorem listProducts_array_normalization_witness:
  "snd (listProducts
          (createProductsApi
             (get (createDirectusClient (JStr ''http://cms.test'') (TokenValue JNull)
                     (stub_fetch (Returned (createJsonResponse True 200
                        (JObj [(''data'', JObj [(''id'', JNum 1)])]) [])))))
             ''Products'')
          no_list_options)
   = Returned \<lparr>ok = True, data = JArr [], meta = JNull, error = None\<rparr>"
proof -
  let ?resp = "createJsonResponse True 200 (JObj [(''data'', JObj [(''id'', JNum 1)])]) []"
  let ?c = "createDirectusClient (JStr ''http://cms.test'') (TokenValue JNull) (stub_fetch (Returned ?resp))"
  let ?papi = "createProductsApi (get ?c) ''Products''"
  let ?opts = "no_options\<lparr>query := Some (buildProductsQuery no_list_options),
                            signal := signal_opt no_list_options\<rparr>"
  let ?result = "\<lparr>ok = True, data = JObj [(''id'', JNum 1)], meta = JNull, error = None\<rparr>"
  have g: "client_get ?papi (collectionPath ?papi) ?opts
             = ([build_call ''http://cms.test'' JNull (collectionPath ?papi) (?opts\<lparr>req_method := Some ''GET''\<rparr>)],
                Returned ?result)"
    by (simp add: createProductsApi_def get_def stub_request respond_success json_response_fields
        json_response_parse unwrapData_def or_js_def)
  show ?thesis
    using listProducts_array_normalization [of ?papi no_list_options _ ?result ?result] g
    by (simp add: isArray_def or_js_def)
qed

lemma request_calls:
  assumes "normalizedBaseUrl c = Some base" and "base \<noteq> []"
    and "resolveToken (token c) = Returned t"
  shows "fst (request c path opts) = [build_call base t path opts]"
  using assms by (simp add: request_valid_base dispatch_calls)

lemma build_call_target:
  "url (build_call base t path opts) = buildUrl base path (query opts)"
  "init_method (build_call base t path opts) = (case req_method opts of None \<Rightarrow> ''GET'' | Some m \<Rightarrow> m)"
  by (simp_all add: build_call_def Let_def)

text \<open>
  Claim C9. When the identifier is \<^verbatim>\<open>undefined\<close>, \<^verbatim>\<open>null\<close> or the empty string,
  \<open>getProductDetail\<close> returns a failure of type \<open>validation\<close> with no transport call,
  whatever the client is. For every other identifier it is the client's \<open>get\<close> on the path
  \<^verbatim>\<open><collectionPath>/<urlEncodedId>\<close>, with the query \<^verbatim>\<open>{fields}\<close> when \<^verbatim>\<open>fields\<close> is given;
  with a valid base URL and a resolved token this makes exactly one transport call, of
  method GET, to that URL.
\<close>

theorem getProductDetail_contract:
  "(missing_id productId \<longrightarrow>
      (\<exists>e. getProductDetail (createProductsApi g collection) productId fieldsArg sig
              = ([], Returned \<lparr>ok = False, data = JNull, meta = JNull, error = Some e\<rparr>)
            \<and> type e = validation))
   \<and> (\<not> missing_id productId \<longrightarrow>
        getProductDetail (createProductsApi (get c) collection) productId fieldsArg sig
          = request c (''/items/'' @ encodeURIComponent collection @ ''/''
                        @ encodeURIComponent (String_js productId))
              (no_options\<lparr>req_method := Some ''GET'',
                           query := (if truthy fieldsArg
                                     then Some [(''fields'', toCommaSeparated fieldsArg)] else None),
                           signal := sig\<rparr>))
   \<and> (\<not> missing_id productId \<and> normalizedBaseUrl c = Some base \<and> base \<noteq> []
        \<and> resolveToken (token c) = Returned t \<longrightarrow>
        (\<exists>call. fst (getProductDetail (createProductsApi (get c) collection) productId fieldsArg sig)
                  = [call]
                \<and> init_method call = ''GET''
                \<and> url call = buildUrl base
                     (''/items/'' @ encodeURIComponent collection @ ''/''
                        @ encodeURIComponent (String_js productId))
                     (if truthy fieldsArg then Some [(''fields'', toCommaSeparated fieldsArg)] else None)))"
proof (intro conjI impI)
  assume "missing_id productId"
  then show "\<exists>e. getProductDetail (createProductsApi g collection) productId fieldsArg sig
              = ([], Returned \<lparr>ok = False, data = JNull, meta = JNull, error = Some e\<rparr>)
            \<and> type e = validation"
    by (simp add: getProductDetail_def missing_id_def createValidationError_def)
next
  assume "\<not> missing_id productId"
  then show "getProductDetail (createProductsApi (get c) collection) productId fieldsArg sig
          = request c (''/items/'' @ encodeURIComponent collection @ ''/''
                        @ encodeURIComponent (String_js productId))
              (no_options\<lparr>req_method := Some ''GET'',
                           query := (if truthy fieldsArg
                                     then Some [(''fields'', toCommaSeparated fieldsArg)] else None),
                           signal := sig\<rparr>)"
    by (simp add: getProductDetail_def missing_id_def createProductsApi_def get_def no_options_def)
next
  assume a: "\<not> missing_id productId \<and> normalizedBaseUrl c = Some base \<and> base \<noteq> []
        \<and> resolveToken (token c) = Returned t"
  let ?path = "''/items/'' @ encodeURIComponent collection @ ''/'' @ encodeURIComponent (String_js productId)"
  let ?q = "if truthy fieldsArg then Some [(''fields'', toCommaSeparated fieldsArg)] else None"
  let ?opts = "no_options\<lparr>req_method := Some ''GET'', query := ?q, signal := sig\<rparr>"
  have eq: "getProductDetail (createProductsApi (get c) collection) productId fieldsArg sig
          = request c ?path ?opts"
    using a by (simp add: getProductDetail_def missing_id_def createProductsApi_def get_def no_options_def)
  have calls: "fst (request c ?path ?opts) = [build_call base t ?path ?opts]"
    using a by (simp add: request_calls)
  have m: "init_method (build_call base t ?path ?opts) = ''GET''"
    by (simp add: build_call_target)
  have u: "url (build_call base t ?path ?opts) = buildUrl base ?path ?q"
    by (simp add: build_call_target)
  show "\<exists>call. fst (getProductDetail (createProductsApi (get c) collection) productId fieldsArg sig)
                  = [call]
                \<and> init_method call = ''GET''
                \<and> url call = buildUrl base
                     (''/items/'' @ encodeURIComponent collection @ ''/''
                        @ encodeURIComponent (String_js productId))
                     (if truthy fieldsArg then Some [(''fields'', toCommaSeparated fieldsArg)] else None)"
    using eq calls m u by metis
qed

lemma detail_url_example:
  "buildUrl ''http://cms.test''
     (''/items/'' @ encodeURIComponent ''Products'' @ ''/'' @ encodeURIComponent (String_js (JNum 42)))
     (if truthy (JArr [JStr ''id'', JStr ''name''])
      then Some [(''fields'', toCommaSeparated (JArr [JStr ''id'', JStr ''name'']))] else None)
   = ''http://cms.test/items/Products/42?fields=id%2Cname''"
  by code_simp

theorem getProductDetail_contract_witness:
  "missing_id JUndefined
   \<and> (\<exists>e. getProductDetail (createProductsApi (get (createDirectusClient (JStr ''http://cms.test'')
                (TokenValue JNull) (stub_fetch (Thrown JNull)))) ''Products'')
              JUndefined JUndefined JUndefined
            = ([], Returned \<lparr>ok = False, data = JNull, meta = JNull, error = Some e\<rparr>)
          \<and> type e = validation)
   \<and> \<not> missing_id (JNum 42)
   \<and> (\<exists>call. fst (getProductDetail (createProductsApi (get (createDirectusClient (JStr ''http://cms.test'')
                       (TokenValue JNull) (stub_fetch (Thrown JNull)))) ''Products'')
                     (JNum 42) (JArr [JStr ''id'', JStr ''name'']) JUndefined)
               = [call]
             \<and> init_method call = ''GET''
             \<and> url call = ''http://cms.test/items/Products/42?fields=id%2Cname'')"
proof -
  let ?c = "createDirectusClient (JStr ''http://cms.test'') (TokenValue JNull) (stub_fetch (Thrown JNull))"
  have h1: "normalizedBaseUrl ?c = Some ''http://cms.test''" by (rule stub_client_facts)
  have h2: "''http://cms.test'' \<noteq> []" by simp
  have h3: "resolveToken (token ?c) = Returned JNull" by (simp add: stub_client_facts)
  have m1: "missing_id JUndefined" by (simp add: missing_id_def)
  have m2: "\<not> missing_id (JNum 42)" by (simp add: missing_id_def)
  have w1: "\<exists>e. getProductDetail (createProductsApi (get ?c) ''Products'') JUndefined JUndefined JUndefined
            = ([], Returned \<lparr>ok = False, data = JNull, meta = JNull, error = Some e\<rparr>)
          \<and> type e = validation"
    using getProductDetail_contract [of JUndefined "get ?c" "''Products''" JUndefined JUndefined] m1
    by blast
  have "\<exists>call. fst (getProductDetail (createProductsApi (get ?c) ''Products'')
                     (JNum 42) (JArr [JStr ''id'', JStr ''name'']) JUndefined)
               = [call]
             \<and> init_method call = ''GET''
             \<and> url call = buildUrl ''http://cms.test''
                  (''/items/'' @ encodeURIComponent ''Products'' @ ''/'' @ encodeURIComponent (String_js (JNum 42)))
                  (if truthy (JArr [JStr ''id'', JStr ''name''])
                   then Some [(''fields'', toCommaSeparated (JArr [JStr ''id'', JStr ''name'']))] else None)"
    using getProductDetail_contract [of "JNum 42" "get ?c" "''Products''" "JArr [JStr ''id'', JStr ''name'']"
        JUndefined ?c "''http://cms.test''" JNull] h1 h2 h3 m2
    by blast
  then have w2: "\<exists>call. fst (getProductDetail (createProductsApi (get ?c) ''Products'')
                     (JNum 42) (JArr [JStr ''id'', JStr ''name'']) JUndefined)
               = [call]
             \<and> init_method call = ''GET''
             \<and> url call = ''http://cms.test/items/Products/42?fields=id%2Cname''"
    by (simp only: detail_url_example)
  show ?thesis
    using m1 m2 w1 w2 by blast
qed

lemma listProducts_test_vector:
  "listProducts
     (createProductsApi
        (get (createDirectusClient (JStr ''http://10.115.3.12:8055'') (TokenValue (JStr ''token-123''))
                (stub_fetch (Returned (createJsonResponse True 200
                   (JObj [(''data'', JArr [JObj [(''id'', JNum 1), (''title'', JStr ''Coffee'')]]),
                          (''meta'', JObj [(''filter_count'', JNum 1)])]) [])))))
        ''Products'')
     (no_list_options\<lparr>limit_opt := JNum 1,
                        filter_opt := JObj [(''status'', JObj [(''_eq'', JStr ''published'')])]\<rparr>)
   = ([\<lparr>url = ''http://10.115.3.12:8055/items/Products?filter%5Bstatus%5D%5B_eq%5D=published&limit=1'',
        init_method = ''GET'',
        init_headers = [(''Accept'', ''application/json''), (''Authorization'', ''Bearer token-123'')],
        init_body = Untouched (Body JUndefined), init_signal = JUndefined\<rparr>],
      Returned \<lparr>ok = True, data = JArr [JObj [(''id'', JNum 1), (''title'', JStr ''Coffee'')]],
                 meta = JObj [(''filter_count'', JNum 1)], error = None\<rparr>)"
  by code_simp

end
